theory Spec2Isabelle
  imports Main "HOL-Library.Word"
begin

section \<open>The marketplace contract (contracts/TrafficData\_Z.sol)\<close>

subsection \<open>Solidity value types\<close>

type_synonym uint256 = "256 word"
type_synonym address = "160 word"

text \<open>
  \<open>euint32\<close> and \<open>externalEuint32\<close> are user-defined value types over \<open>bytes32\<close>:
  opaque ciphertext handles. Proofs are \<open>bytes calldata\<close>.
\<close>

type_synonym euint32 = "256 word"
type_synonym externalEuint32 = "256 word"
type_synonym bytes = "8 word list"

subsection \<open>Structs, storage and events\<close>

record TrafficRecord =
  encryptedSpeed :: euint32
  encryptedLocationX :: euint32
  encryptedLocationY :: euint32
  timestamp :: uint256
  vehicleOwner :: address

record AggregatedData =
  encryptedHeatmapValue :: euint32
  startTime :: uint256
  endTime :: uint256
  price :: uint256
  owner :: address
  isSold :: bool

text \<open>
  The access-control list of the FHE coprocessor, which the contract writes through
  \<open>FHE.allowThis\<close> and \<open>FHE.makePubliclyDecryptable\<close>. It lives outside the contract's
  own storage; it is carried in the state so that the effect of each entry point on
  access rights can be stated.
\<close>

record state =
  trafficRecords :: "uint256 \<Rightarrow> TrafficRecord"
  aggregatedData :: "uint256 \<Rightarrow> AggregatedData"
  withdrawals :: "address \<Rightarrow> uint256"
  recordCount :: uint256
  aggregatedCount :: uint256
  aclAllowed :: "euint32 \<Rightarrow> address \<Rightarrow> bool"
  aclPublic :: "euint32 \<Rightarrow> bool"

datatype event =
  TrafficRecordAdded uint256 address
| AggregatedDataCreated uint256 address
| DataSold uint256 address
| Withdrawal address uint256

text \<open>
  Every way a call can revert. The first eleven are the \<open>require\<close> messages of the
  contract; \<open>InputProofRejected\<close> is a revert raised inside \<open>FHE.fromExternal\<close>;
  \<open>ArithmeticOverflow\<close> is the panic 0x11 of checked arithmetic (the pragma is
  \<open>^0.8.24\<close>); \<open>TransferFailed\<close> is the revert of \<open>address.transfer\<close>.
\<close>

datatype revert =
  Invalid_encrypted_speed
| Invalid_encrypted_location_X
| Invalid_encrypted_location_Y
| Invalid_encrypted_heatmap_value
| Invalid_time_range
| Price_must_be_greater_than_zero
| Invalid_data_ID
| Data_already_sold
| Insufficient_payment
| No_funds_to_withdraw
| Invalid_record_ID
| InputProofRejected
| ArithmeticOverflow
| TransferFailed

text \<open>The transaction context: \<open>msg.sender\<close>, \<open>block.timestamp\<close>, \<open>address(this)\<close>.\<close>

record txn =
  msg_sender :: address
  block_timestamp :: uint256
  this_address :: address

text \<open>The freshly deployed contract: every mapping at its default, both counters zero.\<close>

definition zeroRecord :: TrafficRecord where
  "zeroRecord = \<lparr>encryptedSpeed = 0, encryptedLocationX = 0, encryptedLocationY = 0,
     timestamp = 0, vehicleOwner = 0\<rparr>"

definition zeroData :: AggregatedData where
  "zeroData = \<lparr>encryptedHeatmapValue = 0, startTime = 0, endTime = 0, price = 0,
     owner = 0, isSold = False\<rparr>"

definition deployed :: state where
  "deployed = \<lparr>trafficRecords = (\<lambda>_. zeroRecord), aggregatedData = (\<lambda>_. zeroData),
     withdrawals = (\<lambda>_. 0), recordCount = 0, aggregatedCount = 0,
     aclAllowed = (\<lambda>_ _. False), aclPublic = (\<lambda>_. False)\<rparr>"

subsection \<open>Checked arithmetic and the FHE library\<close>

text \<open>Solidity 0.8 \<open>+\<close> on \<open>uint256\<close>: reverts instead of wrapping.\<close>

definition checked_add :: "uint256 \<Rightarrow> uint256 \<Rightarrow> revert + uint256" where
  "checked_add a b =
     (if unat a + unat b < 2 ^ 256 then Inr (a + b) else Inl ArithmeticOverflow)"

text \<open>
  \<open>FHE.fromExternal\<close> is library code: it checks the input proof and either reverts or
  returns the internal handle. Its verdict is a parameter \<open>fx\<close> of every entry point that
  takes ciphertexts (\<open>None\<close>: the library reverts). \<open>FHE.isInitialized\<close> tests the handle
  against zero.
\<close>

type_synonym fromExternal = "externalEuint32 \<Rightarrow> bytes \<Rightarrow> euint32 option"

definition isInitialized :: "euint32 \<Rightarrow> bool" where
  "isInitialized v = (v \<noteq> 0)"

definition allowThis :: "txn \<Rightarrow> euint32 \<Rightarrow> state \<Rightarrow> state" where
  "allowThis c h s = s\<lparr>aclAllowed := (aclAllowed s)(h := (aclAllowed s h)(this_address c := True))\<rparr>"

definition makePubliclyDecryptable :: "euint32 \<Rightarrow> state \<Rightarrow> state" where
  "makePubliclyDecryptable h s = s\<lparr>aclPublic := (aclPublic s)(h := True)\<rparr>"

text \<open>\<open>require(FHE.isInitialized(FHE.fromExternal(ct, proof)), msg)\<close>\<close>

definition require_input :: "fromExternal \<Rightarrow> externalEuint32 \<Rightarrow> bytes \<Rightarrow> revert \<Rightarrow> revert + euint32" where
  "require_input fx ct pf msg =
     (case fx ct pf of
        None \<Rightarrow> Inl InputProofRejected
      | Some h \<Rightarrow> if isInitialized h then Inr h else Inl msg)"

subsection \<open>Entry points\<close>

definition addTrafficRecord ::
  "fromExternal \<Rightarrow> txn \<Rightarrow> state \<Rightarrow> externalEuint32 \<Rightarrow> bytes \<Rightarrow> externalEuint32 \<Rightarrow> bytes \<Rightarrow>
     externalEuint32 \<Rightarrow> bytes \<Rightarrow> revert + state \<times> event list" where
  "addTrafficRecord fx c s speedCt speedProof locXCt locXProof locYCt locYProof =
     (case require_input fx speedCt speedProof Invalid_encrypted_speed of
        Inl e \<Rightarrow> Inl e
      | Inr hs \<Rightarrow>
     (case require_input fx locXCt locXProof Invalid_encrypted_location_X of
        Inl e \<Rightarrow> Inl e
      | Inr hx \<Rightarrow>
     (case require_input fx locYCt locYProof Invalid_encrypted_location_Y of
        Inl e \<Rightarrow> Inl e
      | Inr hy \<Rightarrow>
        let s1 = s\<lparr>trafficRecords := (trafficRecords s)(recordCount s :=
                    \<lparr>encryptedSpeed = hs, encryptedLocationX = hx, encryptedLocationY = hy,
                     timestamp = block_timestamp c, vehicleOwner = msg_sender c\<rparr>)\<rparr>;
            s2 = allowThis c (encryptedLocationY (trafficRecords s1 (recordCount s1)))
                   (allowThis c (encryptedLocationX (trafficRecords s1 (recordCount s1)))
                     (allowThis c (encryptedSpeed (trafficRecords s1 (recordCount s1))) s1));
            s3 = makePubliclyDecryptable (encryptedLocationY (trafficRecords s2 (recordCount s2)))
                   (makePubliclyDecryptable (encryptedLocationX (trafficRecords s2 (recordCount s2)))
                     (makePubliclyDecryptable (encryptedSpeed (trafficRecords s2 (recordCount s2))) s2));
            ev = TrafficRecordAdded (recordCount s3) (msg_sender c)
        in (case checked_add (recordCount s3) 1 of
              Inl e \<Rightarrow> Inl e
            | Inr n \<Rightarrow> Inr (s3\<lparr>recordCount := n\<rparr>, [ev])))))"

definition createAggregatedData ::
  "fromExternal \<Rightarrow> txn \<Rightarrow> state \<Rightarrow> externalEuint32 \<Rightarrow> bytes \<Rightarrow> uint256 \<Rightarrow> uint256 \<Rightarrow> uint256 \<Rightarrow>
     revert + state \<times> event list" where
  "createAggregatedData fx c s heatmapCt heatmapProof startT endT pr =
     (case require_input fx heatmapCt heatmapProof Invalid_encrypted_heatmap_value of
        Inl e \<Rightarrow> Inl e
      | Inr h \<Rightarrow>
        if \<not> startT < endT then Inl Invalid_time_range
        else if \<not> pr > 0 then Inl Price_must_be_greater_than_zero
        else
          let s1 = s\<lparr>aggregatedData := (aggregatedData s)(aggregatedCount s :=
                      \<lparr>encryptedHeatmapValue = h, startTime = startT, endTime = endT,
                       price = pr, owner = msg_sender c, isSold = False\<rparr>)\<rparr>;
              s2 = allowThis c (encryptedHeatmapValue (aggregatedData s1 (aggregatedCount s1))) s1;
              s3 = makePubliclyDecryptable
                     (encryptedHeatmapValue (aggregatedData s2 (aggregatedCount s2))) s2;
              ev = AggregatedDataCreated (aggregatedCount s3) (msg_sender c)
          in (case checked_add (aggregatedCount s3) 1 of
                Inl e \<Rightarrow> Inl e
              | Inr n \<Rightarrow> Inr (s3\<lparr>aggregatedCount := n\<rparr>, [ev])))"

text \<open>
  \<open>purchaseData\<close> is the one \<open>payable\<close> entry point: \<open>v\<close> is \<open>msg.value\<close>. The other
  entry points take no value.
\<close>

definition purchaseData :: "txn \<Rightarrow> uint256 \<Rightarrow> state \<Rightarrow> uint256 \<Rightarrow> revert + state \<times> event list" where
  "purchaseData c v s dataId =
     (if \<not> dataId < aggregatedCount s then Inl Invalid_data_ID
      else if isSold (aggregatedData s dataId) then Inl Data_already_sold
      else if \<not> v \<ge> price (aggregatedData s dataId) then Inl Insufficient_payment
      else
        (case checked_add (withdrawals s (owner (aggregatedData s dataId))) v of
           Inl e \<Rightarrow> Inl e
         | Inr b \<Rightarrow>
             let s1 = s\<lparr>withdrawals := (withdrawals s)(owner (aggregatedData s dataId) := b)\<rparr>;
                 s2 = s1\<lparr>aggregatedData := (aggregatedData s1)(dataId :=
                            (aggregatedData s1 dataId)\<lparr>isSold := True\<rparr>)\<rparr>
             in Inr (s2, [DataSold dataId (msg_sender c)])))"

text \<open>
  \<open>payable(msg.sender).transfer(amount)\<close> hands control to the payee and reverts the
  whole call when the payee does not accept the funds. The payee's verdict is the
  parameter \<open>accepts\<close>; it is asked in the state the contract is in at that moment.
\<close>

type_synonym payee = "state \<Rightarrow> address \<Rightarrow> uint256 \<Rightarrow> bool"

definition withdraw :: "payee \<Rightarrow> txn \<Rightarrow> state \<Rightarrow> revert + state \<times> event list" where
  "withdraw accepts c s =
     (let amount = withdrawals s (msg_sender c) in
      if \<not> amount > 0 then Inl No_funds_to_withdraw
      else
        let s1 = s\<lparr>withdrawals := (withdrawals s)(msg_sender c := 0)\<rparr> in
        if \<not> accepts s1 (msg_sender c) amount then Inl TransferFailed
        else Inr (s1, [Withdrawal (msg_sender c) amount]))"

definition getTrafficRecord :: "state \<Rightarrow> uint256 \<Rightarrow> revert + TrafficRecord" where
  "getTrafficRecord s recordId =
     (if \<not> recordId < recordCount s then Inl Invalid_record_ID
      else Inr (trafficRecords s recordId))"

definition getAggregatedData :: "state \<Rightarrow> uint256 \<Rightarrow> revert + AggregatedData" where
  "getAggregatedData s dataId =
     (if \<not> dataId < aggregatedCount s then Inl Invalid_data_ID
      else Inr (aggregatedData s dataId))"

definition getTotalRecords :: "state \<Rightarrow> uint256" where
  "getTotalRecords s = recordCount s"

definition getTotalAggregatedData :: "state \<Rightarrow> uint256" where
  "getTotalAggregatedData s = aggregatedCount s"

text \<open>\<open>isAvailable\<close> is declared \<open>pure\<close>: it has no access to the state at all.\<close>

definition isAvailable :: bool where
  "isAvailable = True"


subsection \<open>Transactions\<close>

text \<open>
  A transaction calls one state-changing entry point. The EVM discards every write of a
  call that reverts, so the state after a reverted call is the state before it.
\<close>

datatype call =
  AddTrafficRecord externalEuint32 bytes externalEuint32 bytes externalEuint32 bytes
| CreateAggregatedData externalEuint32 bytes uint256 uint256 uint256
| PurchaseData uint256 uint256
| Withdraw

fun exec :: "fromExternal \<Rightarrow> payee \<Rightarrow> txn \<Rightarrow> state \<Rightarrow> call \<Rightarrow> revert + state \<times> event list" where
  "exec fx acc c s (AddTrafficRecord a pa b pb d pd) = addTrafficRecord fx c s a pa b pb d pd"
| "exec fx acc c s (CreateAggregatedData h ph st en pr) = createAggregatedData fx c s h ph st en pr"
| "exec fx acc c s (PurchaseData dataId v) = purchaseData c v s dataId"
| "exec fx acc c s Withdraw = withdraw acc c s"

definition after :: "state \<Rightarrow> revert + state \<times> event list \<Rightarrow> state" where
  "after s r = (case r of Inl _ \<Rightarrow> s | Inr (s', _) \<Rightarrow> s')"

type_synonym tx = "fromExternal \<times> payee \<times> txn \<times> call"

fun run :: "state \<Rightarrow> tx list \<Rightarrow> state" where
  "run s [] = s"
| "run s ((fx, acc, c, k) # txs) = run (after s (exec fx acc c s k)) txs"

fun is_purchase :: "call \<Rightarrow> bool" where
  "is_purchase (PurchaseData _ _) = True"
| "is_purchase _ = False"

definition call_of :: "tx \<Rightarrow> call" where
  "call_of t = snd (snd (snd t))"

text \<open>A run of purchase attempts on one dataset, each with its own buyer and payment.\<close>

definition attempts_on :: "fromExternal \<Rightarrow> payee \<Rightarrow> uint256 \<Rightarrow> (txn \<times> uint256) list \<Rightarrow> tx list" where
  "attempts_on fx acc dataId xs = map (\<lambda>(c, v). (fx, acc, c, PurchaseData dataId v)) xs"

text \<open>Read-only calls.\<close>

datatype query =
  GetTrafficRecord uint256
| GetAggregatedData uint256
| GetTotalRecords
| GetTotalAggregatedData
| IsAvailable

datatype answer =
  ARecord TrafficRecord
| AData AggregatedData
| AUint uint256
| ABool bool

fun view_call :: "state \<Rightarrow> query \<Rightarrow> revert + answer" where
  "view_call s (GetTrafficRecord i) = map_sum id ARecord (getTrafficRecord s i)"
| "view_call s (GetAggregatedData i) = map_sum id AData (getAggregatedData s i)"
| "view_call s GetTotalRecords = Inr (AUint (getTotalRecords s))"
| "view_call s GetTotalAggregatedData = Inr (AUint (getTotalAggregatedData s))"
| "view_call s IsAvailable = Inr (ABool isAvailable)"

text \<open>
  The error of the design document's taxonomy that stands for a rejected ciphertext:
  any of the four \<open>require\<close> messages on an uninitialised handle, or the library's own
  revert.
\<close>

definition InvalidCiphertext :: "revert set" where
  "InvalidCiphertext = {Invalid_encrypted_speed, Invalid_encrypted_location_X,
     Invalid_encrypted_location_Y, Invalid_encrypted_heatmap_value, InputProofRejected}"

definition input_ok :: "fromExternal \<Rightarrow> externalEuint32 \<Rightarrow> bytes \<Rightarrow> bool" where
  "input_ok fx ct pf = (case fx ct pf of None \<Rightarrow> False | Some h \<Rightarrow> isInitialized h)"

section \<open>The decryption flow of the front end (frontend/web/src/App.tsx)\<close>

subsection \<open>JavaScript values\<close>

text \<open>
  A rejected promise carries an error whose \<open>message\<close> may be undefined;
  \<open>e.message?.includes(sub)\<close> is then falsy.
\<close>

datatype 'a promise = Resolved 'a | Rejected "string option"

fun startsWith :: "string \<Rightarrow> string \<Rightarrow> bool" where
  "startsWith s [] = True"
| "startsWith [] (y # ys) = False"
| "startsWith (x # xs) (y # ys) = (x = y \<and> startsWith xs ys)"

fun str_includes :: "string \<Rightarrow> string \<Rightarrow> bool" where
  "str_includes [] sub = (sub = [])"
| "str_includes (x # xs) sub = (startsWith (x # xs) sub \<or> str_includes xs sub)"

definition message_includes :: "string option \<Rightarrow> string \<Rightarrow> bool" where
  "message_includes m sub = (case m of None \<Rightarrow> False | Some s \<Rightarrow> str_includes s sub)"

text \<open>
  The numbers \<open>decryptData\<close> returns: the clear value of an \<open>euint32\<close> converted with
  \<open>Number(...)\<close>, or \<open>NaN\<close> when the value looked up is undefined. \<open>x || 0\<close> replaces
  the falsy numbers, \<open>NaN\<close> and \<open>0\<close>, by \<open>0\<close>.
\<close>

datatype number = Num nat | NaN

fun Number :: "nat option \<Rightarrow> number" where
  "Number None = NaN"
| "Number (Some n) = Num n"

fun or_zero :: "number \<Rightarrow> number" where
  "or_zero NaN = Num 0"
| "or_zero (Num n) = (if n = 0 then Num 0 else Num n)"

subsection \<open>The component's surroundings\<close>

datatype status = Pending | Success | Error

text \<open>
  What \<open>decryptData\<close> does to the outside, in order: the React state setters, the
  timers that hide the status banner, and the calls that leave the component.
\<close>

datatype effect =
  SetTransactionStatus bool status string
| SetTimeout_hide nat
| SetIsDecrypting bool
| Call_getContractReadOnly
| Call_getBusinessData string
| Call_getContractWithSigner
| Call_getEncryptedValue string
| Call_verifyDecryption "euint32 list" string
| Call_loadData

text \<open>The fields of the struct returned by \<open>getBusinessData\<close> that \<open>decryptData\<close> reads.\<close>

record BusinessData =
  isVerified :: bool
  decryptedValue :: "32 word"

record DecryptionResult =
  clearValues :: "euint32 \<Rightarrow> nat option"

text \<open>
  Everything \<open>decryptData\<close> closes over. \<open>'l\<close> is the state of the ledger the contract
  object talks to. The two contract factories resolve to a contract (\<open>True\<close>) or to
  \<open>null\<close> (\<open>False\<close>); the reads \<open>getBusinessData\<close> and \<open>getEncryptedValue\<close> go through
  the read-only contract and cannot change the ledger; \<open>contract_verifyDecryption\<close> is a
  transaction sent through the signer; \<open>hook_verifyDecryption\<close> is the
  \<open>verifyDecryption\<close> of \<open>useDecrypt\<close>, which is handed the callback that sends that
  transaction.
\<close>

record 'l env =
  isConnected :: bool
  account :: "address option"
  contractAddress :: string
  getContractReadOnly :: "bool promise"
  getContractWithSigner :: "bool promise"
  getBusinessData :: "'l \<Rightarrow> string \<Rightarrow> BusinessData promise"
  getEncryptedValue :: "'l \<Rightarrow> string \<Rightarrow> euint32 promise"
  contract_verifyDecryption :: "string \<Rightarrow> string \<Rightarrow> string \<Rightarrow> 'l \<Rightarrow> 'l promise"
  hook_verifyDecryption ::
    "euint32 list \<Rightarrow> string \<Rightarrow> (string \<Rightarrow> string \<Rightarrow> 'l \<Rightarrow> 'l promise) \<Rightarrow> 'l \<Rightarrow>
       'l \<times> DecryptionResult promise"

record 'l outcome =
  returned :: "number option"
  effects :: "effect list"
  ledger :: 'l

subsection \<open>\<open>decryptData\<close>\<close>

text \<open>The body of the \<open>try\<close> block: the ledger it leaves, its effects, how it ends.\<close>

definition try_block :: "'l env \<Rightarrow> 'l \<Rightarrow> string \<Rightarrow> 'l \<times> effect list \<times> number option promise" where
  "try_block e L businessId =
     (case getContractReadOnly e of
        Rejected m \<Rightarrow> (L, [Call_getContractReadOnly], Rejected m)
      | Resolved contractRead \<Rightarrow>
        if \<not> contractRead then (L, [Call_getContractReadOnly], Resolved None)
        else
     (case getBusinessData e L businessId of
        Rejected m \<Rightarrow>
          (L, [Call_getContractReadOnly, Call_getBusinessData businessId], Rejected m)
      | Resolved businessData \<Rightarrow>
        if isVerified businessData then
          (L, [Call_getContractReadOnly, Call_getBusinessData businessId,
               SetTransactionStatus True Success ''Data already verified'',
               SetTimeout_hide 2000],
           Resolved (Some (or_zero (Number (Some (unat (decryptedValue businessData)))))))
        else
     (case getContractWithSigner e of
        Rejected m \<Rightarrow>
          (L, [Call_getContractReadOnly, Call_getBusinessData businessId,
               Call_getContractWithSigner], Rejected m)
      | Resolved contractWrite \<Rightarrow>
        if \<not> contractWrite then
          (L, [Call_getContractReadOnly, Call_getBusinessData businessId,
               Call_getContractWithSigner], Resolved None)
        else
     (case getEncryptedValue e L businessId of
        Rejected m \<Rightarrow>
          (L, [Call_getContractReadOnly, Call_getBusinessData businessId,
               Call_getContractWithSigner, Call_getEncryptedValue businessId], Rejected m)
      | Resolved encryptedValueHandle \<Rightarrow>
     (case hook_verifyDecryption e [encryptedValueHandle] (contractAddress e)
             (\<lambda>abiEncodedClearValues decryptionProof.
                contract_verifyDecryption e businessId abiEncodedClearValues decryptionProof) L of
        (L', Rejected m) \<Rightarrow>
          (L', [Call_getContractReadOnly, Call_getBusinessData businessId,
                Call_getContractWithSigner, Call_getEncryptedValue businessId,
                Call_verifyDecryption [encryptedValueHandle] (contractAddress e)], Rejected m)
      | (L', Resolved result) \<Rightarrow>
          (L', [Call_getContractReadOnly, Call_getBusinessData businessId,
                Call_getContractWithSigner, Call_getEncryptedValue businessId,
                Call_verifyDecryption [encryptedValueHandle] (contractAddress e),
                SetTransactionStatus True Pending ''Verifying decryption...'',
                Call_loadData,
                SetTransactionStatus True Success ''Data decrypted successfully!'',
                SetTimeout_hide 2000],
           Resolved (Some (Number (clearValues result encryptedValueHandle)))))))))"

text \<open>The \<open>catch\<close> block.\<close>

definition catch_block :: "string option \<Rightarrow> effect list \<times> number option" where
  "catch_block m =
     (if message_includes m ''Data already verified'' then
        ([SetTransactionStatus True Success ''Data already verified'', SetTimeout_hide 2000,
          Call_loadData], None)
      else
        ([SetTransactionStatus True Error ''Decryption failed'', SetTimeout_hide 3000], None))"

definition decryptData :: "'l env \<Rightarrow> 'l \<Rightarrow> string \<Rightarrow> 'l outcome" where
  "decryptData e L businessId =
     (if \<not> isConnected e \<or> account e = None then
        \<lparr>returned = None,
         effects = [SetTransactionStatus True Error ''Please connect wallet first'',
                    SetTimeout_hide 3000],
         ledger = L\<rparr>
      else
        (case try_block e L businessId of
           (L', effs, Resolved v) \<Rightarrow>
             \<lparr>returned = v,
              effects = SetIsDecrypting True # effs @ [SetIsDecrypting False],
              ledger = L'\<rparr>
         | (L', effs, Rejected m) \<Rightarrow>
             \<lparr>returned = snd (catch_block m),
              effects = SetIsDecrypting True # effs @ fst (catch_block m) @ [SetIsDecrypting False],
              ledger = L'\<rparr>))"

definition enters_handshake :: "effect \<Rightarrow> bool" where
  "enters_handshake x = (case x of Call_verifyDecryption _ _ \<Rightarrow> True | _ \<Rightarrow> False)"

section \<open>The ledger side of decryption verification\<close>

text \<open>
  The contract in this repository has no entry point that commits a decrypted value:
  the \<open>getBusinessData\<close>, \<open>getEncryptedValue\<close> and \<open>verifyDecryption\<close> that the front
  end calls, and the \<open>useDecrypt\<close> hook, are not among its sources. The definitions
  of this section follow the design document instead.
\<close>

text \<open>
  Modelled from the spec: the part of a store entry the verification protocol works on,
  an encrypted value and \<open>provenPlaintext: optional uint\<close>. The entry type of the
  contract's source has no such field.
\<close>

record target =
  encryptedValue :: euint32
  provenPlaintext :: "32 word option"

text \<open>
  Modelled from the spec: the store of targets the missing ledger contract keeps, keyed
  by the identifier the front end passes.
\<close>

type_synonym targets = "string \<Rightarrow> target option"

text \<open>
  Modelled from the spec: the errors of the missing commit entry point, out of the
  error taxonomy (\<open>NotFound\<close>, \<open>AlreadyProven\<close>, \<open>ProofInvalid\<close>).
\<close>

datatype protocol_error = NotFound | AlreadyProven | ProofInvalid

text \<open>
  Modelled from the spec: the consumed collaborator
  \<open>verifyProof(handles[], clearValues[], proof, contextAddress) -> bool\<close>, together with
  the decoding of the clear value out of the submitted payload. Both are missing from
  the sources and are parameters.
\<close>

record verifier =
  verifyProof :: "euint32 list \<Rightarrow> string \<Rightarrow> string \<Rightarrow> bool"
  decodeClearValue :: "string \<Rightarrow> 32 word"

text \<open>
  Modelled from the spec: \<open>commitDecryption(targetId, clearValues, proof)\<close>, the missing
  ledger entry point. It fails fast with \<open>AlreadyProven\<close> on a target that has a
  committed plaintext; it writes \<open>provenPlaintext\<close> only when the proof verifies against
  the stored ciphertext, and otherwise fails with \<open>ProofInvalid\<close>.
\<close>

definition commitDecryption ::
  "verifier \<Rightarrow> targets \<Rightarrow> string \<Rightarrow> string \<Rightarrow> string \<Rightarrow> protocol_error + targets" where
  "commitDecryption V L targetId payload pf =
     (case L targetId of
        None \<Rightarrow> Inl NotFound
      | Some t \<Rightarrow>
          (case provenPlaintext t of
             Some _ \<Rightarrow> Inl AlreadyProven
           | None \<Rightarrow>
               if verifyProof V [encryptedValue t] payload pf
               then Inr (L(targetId \<mapsto> t\<lparr>provenPlaintext := Some (decodeClearValue V payload)\<rparr>))
               else Inl ProofInvalid))"

text \<open>
  Modelled from the spec: the states of one verification attempt,
  \<open>Idle -> Requested -> ProofReceived -> Committed\<close>, with \<open>Failed\<close>. The missing code is
  the protocol driver around the ledger check.
\<close>

datatype attempt =
  Idle
| Requested
| ProofReceived string string
| Committed
| Failed protocol_error

text \<open>
  Modelled from the spec: the step of the missing protocol driver out of
  \<open>ProofReceived\<close>, to \<open>Committed\<close> when the ledger accepts the payload and to \<open>Failed\<close>
  with the ledger's error, the ledger unchanged, when it does not.
\<close>

fun commit_phase :: "verifier \<Rightarrow> string \<Rightarrow> attempt \<times> targets \<Rightarrow> attempt \<times> targets" where
  "commit_phase V targetId (ProofReceived payload pf, L) =
     (case commitDecryption V L targetId payload pf of
        Inl err \<Rightarrow> (Failed err, L)
      | Inr L' \<Rightarrow> (Committed, L'))"
| "commit_phase V targetId (a, L) = (a, L)"

text \<open>
  Modelled from the spec: the revert messages of the missing ledger contract. The only
  message the front end tells apart is \<open>Data already verified\<close>, which its \<open>catch\<close>
  block looks for; the other two are the names of the errors.
\<close>

fun revert_message :: "protocol_error \<Rightarrow> string" where
  "revert_message AlreadyProven = ''Data already verified''"
| "revert_message NotFound = ''NotFound''"
| "revert_message ProofInvalid = ''ProofInvalid''"

text \<open>
  Modelled from the spec: the missing read \<open>getBusinessData\<close>. A target is verified
  when its \<open>provenPlaintext\<close> is set, and \<open>decryptedValue\<close> is then that plaintext.
\<close>

definition ledger_getBusinessData :: "targets \<Rightarrow> string \<Rightarrow> BusinessData promise" where
  "ledger_getBusinessData L targetId =
     (case L targetId of
        None \<Rightarrow> Rejected (Some (revert_message NotFound))
      | Some t \<Rightarrow>
          Resolved \<lparr>isVerified = (provenPlaintext t \<noteq> None),
                    decryptedValue = (case provenPlaintext t of None \<Rightarrow> 0 | Some v \<Rightarrow> v)\<rparr>)"

text \<open>
  Modelled from the spec: the missing read \<open>getEncryptedValue\<close>, the handle of the
  target's stored ciphertext.
\<close>

definition ledger_getEncryptedValue :: "targets \<Rightarrow> string \<Rightarrow> euint32 promise" where
  "ledger_getEncryptedValue L targetId =
     (case L targetId of
        None \<Rightarrow> Rejected (Some (revert_message NotFound))
      | Some t \<Rightarrow> Resolved (encryptedValue t))"

text \<open>
  Modelled from the spec: the missing transaction \<open>verifyDecryption\<close> of the ledger
  contract, which is \<open>commitDecryption\<close> seen through a promise: a revert rejects it
  with the revert message.
\<close>

definition ledger_verifyDecryption ::
  "verifier \<Rightarrow> string \<Rightarrow> string \<Rightarrow> string \<Rightarrow> targets \<Rightarrow> targets promise" where
  "ledger_verifyDecryption V targetId payload pf L =
     (case commitDecryption V L targetId payload pf of
        Inl err \<Rightarrow> Rejected (Some (revert_message err))
      | Inr L' \<Rightarrow> Resolved L')"

text \<open>
  Modelled from the spec: the external decryption service, missing from the sources
  and untrusted. Given handles and a context address it answers with the clear values,
  their encoding and one proof, or fails.
\<close>

type_synonym service = "euint32 list \<Rightarrow> string \<Rightarrow> (DecryptionResult \<times> string \<times> string) promise"

text \<open>
  Modelled from the spec: the handshake of the missing \<open>useDecrypt\<close> hook. The service
  answers the request (\<open>Requested -> ProofReceived\<close>), or fails; the hook then submits
  payload and proof through the callback, and fails when the submission does.
\<close>

definition handshake ::
  "service \<Rightarrow> euint32 list \<Rightarrow> string \<Rightarrow> (string \<Rightarrow> string \<Rightarrow> 'l \<Rightarrow> 'l promise) \<Rightarrow> 'l \<Rightarrow>
     'l \<times> DecryptionResult promise" where
  "handshake svc handles ctx callback L =
     (case svc handles ctx of
        Rejected m \<Rightarrow> (L, Rejected m)
      | Resolved (res, payload, pf) \<Rightarrow>
          (case callback payload pf L of
             Rejected m \<Rightarrow> (L, Rejected m)
           | Resolved L' \<Rightarrow> (L', Resolved res)))"

text \<open>
  Modelled from the spec: the surroundings of \<open>decryptData\<close> when the wallet is
  connected, both contract objects are available, and the missing contract and hook
  behave as above.
\<close>

definition ledger_env :: "verifier \<Rightarrow> service \<Rightarrow> address \<Rightarrow> string \<Rightarrow> targets env" where
  "ledger_env V svc user ctx =
     \<lparr>isConnected = True, account = Some user, contractAddress = ctx,
      getContractReadOnly = Resolved True, getContractWithSigner = Resolved True,
      getBusinessData = ledger_getBusinessData,
      getEncryptedValue = ledger_getEncryptedValue,
      contract_verifyDecryption = ledger_verifyDecryption V,
      hook_verifyDecryption = handshake svc\<rparr>"

section \<open>Concrete scenarios\<close>

definition alice :: address where "alice = 1"
definition bob :: address where "bob = 2"
definition market :: address where "market = 99"

definition tx_of :: "address \<Rightarrow> txn" where
  "tx_of a = \<lparr>msg_sender = a, block_timestamp = 1000, this_address = market\<rparr>"

text \<open>An input verifier that accepts exactly the proof \<open>[1]\<close> and hands the handle through.\<close>

definition fx_demo :: fromExternal where
  "fx_demo ct pf = (if pf = [1] then Some ct else None)"

text \<open>An input verifier whose handle is never initialised.\<close>

definition fx_zero :: fromExternal where
  "fx_zero ct pf = Some 0"

definition payee_accepts :: payee where
  "payee_accepts s a n = True"

definition payee_rejects :: payee where
  "payee_rejects s a n = False"

text \<open>Alice has listed one dataset, handle 7, window 100 to 200, price 10.\<close>

definition shop :: state where
  "shop = after deployed (createAggregatedData fx_demo (tx_of alice) deployed 7 [1] 100 200 10)"

text \<open>Bob has bought it for 15.\<close>

definition shop_sold :: state where
  "shop_sold = after shop (purchaseData (tx_of bob) 15 shop 0)"

text \<open>
  A ledger with one target, \<open>3\<close>, whose encrypted value has the handle 7 and is not yet
  proven; a verification check that accepts the payload \<open>42\<close> with the proof \<open>ok\<close> for
  that handle; a decryption service that answers honestly and one that forges.
\<close>

definition demo_targets :: targets where
  "demo_targets = Map.empty(''3'' \<mapsto> \<lparr>encryptedValue = 7, provenPlaintext = None\<rparr>)"

definition demo_verifier :: verifier where
  "demo_verifier =
     \<lparr>verifyProof = (\<lambda>hs payload pf. hs = [7] \<and> payload = ''42'' \<and> pf = ''ok''),
      decodeClearValue = (\<lambda>payload. if payload = ''42'' then 42 else 0)\<rparr>"

definition svc_honest :: service where
  "svc_honest hs ctx =
     Resolved (\<lparr>clearValues = (\<lambda>h. if h = 7 then Some 42 else None)\<rparr>, ''42'', ''ok'')"

definition svc_forging :: service where
  "svc_forging hs ctx =
     Resolved (\<lparr>clearValues = (\<lambda>h. if h = 7 then Some 41 else None)\<rparr>, ''41'', ''forged'')"

definition proven_targets :: targets where
  "proven_targets = demo_targets(''3'' \<mapsto> \<lparr>encryptedValue = 7, provenPlaintext = Some 42\<rparr>)"

text \<open>
  Surroundings over the marketplace state in which every target reads as verified with
  the value 42, and in which sending \<open>verifyDecryption\<close> would empty every balance and
  the hook would reset every dataset.
\<close>

definition wiping_env :: "state env" where
  "wiping_env =
     \<lparr>isConnected = True, account = Some bob, contractAddress = ''0xmarket'',
      getContractReadOnly = Resolved True, getContractWithSigner = Resolved True,
      getBusinessData = (\<lambda>s i. Resolved \<lparr>isVerified = True, decryptedValue = 42\<rparr>),
      getEncryptedValue = (\<lambda>s i. Resolved 7),
      contract_verifyDecryption = (\<lambda>i payload pf s. Resolved (s\<lparr>withdrawals := (\<lambda>a. 0)\<rparr>)),
      hook_verifyDecryption =
        (\<lambda>hs ctx callback s. (s\<lparr>aggregatedData := (\<lambda>d. zeroData)\<rparr>, Rejected None))\<rparr>"

section \<open>Properties of the contract\<close>

subsection \<open>The scenario states\<close>

lemma shop_fields:
  "aggregatedCount shop = 1"
  "aggregatedData shop 0 = \<lparr>encryptedHeatmapValue = 7, startTime = 100, endTime = 200, price = 10, owner = alice, isSold = False\<rparr>"
  "withdrawals shop = (\<lambda>_. 0)"
  "recordCount shop = 0"
  by (simp_all add: shop_def alice_def tx_of_def fx_demo_def createAggregatedData_def
      require_input_def isInitialized_def checked_add_def allowThis_def
      makePubliclyDecryptable_def after_def deployed_def zeroData_def)

lemma shop_purchase:
  "purchaseData (tx_of bob) 15 shop 0 = Inr (shop_sold, [DataSold 0 (msg_sender (tx_of bob))])"
  by (simp add: shop_sold_def purchaseData_def shop_fields checked_add_def after_def)

subsection \<open>What each entry point does\<close>

lemma addTrafficRecord_Inr:
  assumes "addTrafficRecord fx c s a pa b pb d pd = Inr (s', evs)"
  shows "input_ok fx a pa" and "input_ok fx b pb" and "input_ok fx d pd"
    and "unat (recordCount s) + 1 < 2 ^ 256"
    and "recordCount s' = recordCount s + 1"
    and "trafficRecords s' = (trafficRecords s)(recordCount s :=
           \<lparr>encryptedSpeed = the (fx a pa), encryptedLocationX = the (fx b pb),
            encryptedLocationY = the (fx d pd), timestamp = block_timestamp c,
            vehicleOwner = msg_sender c\<rparr>)"
    and "aggregatedData s' = aggregatedData s" and "aggregatedCount s' = aggregatedCount s"
    and "withdrawals s' = withdrawals s"
    and "evs = [TrafficRecordAdded (recordCount s) (msg_sender c)]"
  using assms
  by (auto simp: addTrafficRecord_def require_input_def input_ok_def Let_def allowThis_def
      makePubliclyDecryptable_def checked_add_def split: sum.splits option.splits if_splits)

lemma addTrafficRecord_succeeds:
  assumes "input_ok fx a pa" and "input_ok fx b pb" and "input_ok fx d pd"
    and "unat (recordCount s) + 1 < 2 ^ 256"
  shows "\<exists>s'. addTrafficRecord fx c s a pa b pb d pd =
           Inr (s', [TrafficRecordAdded (recordCount s) (msg_sender c)])"
  using assms
  by (auto simp: addTrafficRecord_def require_input_def input_ok_def Let_def allowThis_def
      makePubliclyDecryptable_def checked_add_def split: sum.splits option.splits if_splits)

lemma addTrafficRecord_Inl:
  assumes "addTrafficRecord fx c s a pa b pb d pd = Inl e"
  shows "(e \<in> InvalidCiphertext \<and> \<not> (input_ok fx a pa \<and> input_ok fx b pb \<and> input_ok fx d pd))
         \<or> (e = ArithmeticOverflow \<and> input_ok fx a pa \<and> input_ok fx b pb \<and> input_ok fx d pd
              \<and> \<not> unat (recordCount s) + 1 < 2 ^ 256)"
  using assms
  by (auto simp: addTrafficRecord_def require_input_def input_ok_def Let_def allowThis_def
      makePubliclyDecryptable_def checked_add_def InvalidCiphertext_def
      split: sum.splits option.splits if_splits)

lemma createAggregatedData_Inr:
  assumes "createAggregatedData fx c s h ph st en pr = Inr (s', evs)"
  shows "input_ok fx h ph" and "st < en" and "0 < pr"
    and "unat (aggregatedCount s) + 1 < 2 ^ 256"
    and "aggregatedCount s' = aggregatedCount s + 1"
    and "aggregatedData s' = (aggregatedData s)(aggregatedCount s :=
           \<lparr>encryptedHeatmapValue = the (fx h ph), startTime = st, endTime = en, price = pr,
            owner = msg_sender c, isSold = False\<rparr>)"
    and "trafficRecords s' = trafficRecords s" and "recordCount s' = recordCount s"
    and "withdrawals s' = withdrawals s"
    and "evs = [AggregatedDataCreated (aggregatedCount s) (msg_sender c)]"
  using assms
  by (auto simp: createAggregatedData_def require_input_def input_ok_def Let_def allowThis_def
      makePubliclyDecryptable_def checked_add_def split: sum.splits option.splits if_splits)

lemma withdraw_Inr:
  assumes "withdraw acc c s = Inr (s', evs)"
  shows "withdrawals s (msg_sender c) \<noteq> 0"
    and "acc (s\<lparr>withdrawals := (withdrawals s)(msg_sender c := 0)\<rparr>) (msg_sender c)
           (withdrawals s (msg_sender c))"
    and "s' = s\<lparr>withdrawals := (withdrawals s)(msg_sender c := 0)\<rparr>"
    and "evs = [Withdrawal (msg_sender c) (withdrawals s (msg_sender c))]"
  using assms
  by (auto simp: withdraw_def Let_def split: if_splits)

lemma withdraw_NoFunds:
  "withdraw acc c s = Inl No_funds_to_withdraw \<longleftrightarrow> withdrawals s (msg_sender c) = 0"
  by (auto simp: withdraw_def Let_def word_greater_zero_iff split: if_splits)

subsection \<open>Purchase\<close>

lemma purchaseData_Inr:
  assumes "purchaseData c v s dataId = Inr (s', evs)"
  shows "dataId < aggregatedCount s" and "\<not> isSold (aggregatedData s dataId)"
    and "price (aggregatedData s dataId) \<le> v"
    and "unat (withdrawals s (owner (aggregatedData s dataId))) + unat v < 2 ^ 256"
    and "s' = s\<lparr>withdrawals := (withdrawals s)(owner (aggregatedData s dataId) :=
                   withdrawals s (owner (aggregatedData s dataId)) + v),
                aggregatedData := (aggregatedData s)(dataId := (aggregatedData s dataId)\<lparr>isSold := True\<rparr>)\<rparr>"
    and "evs = [DataSold dataId (msg_sender c)]"
  using assms
  by (auto simp: purchaseData_def checked_add_def Let_def split: if_splits sum.splits)

lemma purchaseData_succeeds:
  assumes "dataId < aggregatedCount s" and "\<not> isSold (aggregatedData s dataId)"
    and "price (aggregatedData s dataId) \<le> v"
    and "unat (withdrawals s (owner (aggregatedData s dataId))) + unat v < 2 ^ 256"
  shows "purchaseData c v s dataId =
           Inr (s\<lparr>withdrawals := (withdrawals s)(owner (aggregatedData s dataId) :=
                   withdrawals s (owner (aggregatedData s dataId)) + v),
                aggregatedData := (aggregatedData s)(dataId := (aggregatedData s dataId)\<lparr>isSold := True\<rparr>)\<rparr>,
                [DataSold dataId (msg_sender c)])"
  using assms by (simp add: purchaseData_def checked_add_def Let_def)

text \<open>
  Claim C2. \<open>purchaseData\<close> runs three checks in this order: an identifier that is not
  below \<open>aggregatedCount\<close> reverts with \<open>Invalid data ID\<close> (NotFound); an existing
  dataset whose \<open>isSold\<close> flag is set reverts with \<open>Data already sold\<close> (AlreadySold); an
  existing unsold dataset paid strictly less than its price reverts with
  \<open>Insufficient payment\<close> (InsufficientPayment). A call that reverts leaves the state as
  it was. A call that succeeds has credited the owner with the whole of \<open>msg.value\<close>,
  read as a natural number, whatever the overpayment, has set \<open>isSold\<close>, and has emitted
  \<open>DataSold\<close>. Success is what happens when the three checks pass and the credit fits
  in a \<open>uint256\<close>.
\<close>

theorem purchaseData_outcomes:
  "(\<not> dataId < aggregatedCount s \<longrightarrow> purchaseData c v s dataId = Inl Invalid_data_ID)
   \<and> (dataId < aggregatedCount s \<longrightarrow> isSold (aggregatedData s dataId) \<longrightarrow>
        purchaseData c v s dataId = Inl Data_already_sold)
   \<and> (dataId < aggregatedCount s \<longrightarrow> \<not> isSold (aggregatedData s dataId) \<longrightarrow>
        v < price (aggregatedData s dataId) \<longrightarrow>
        purchaseData c v s dataId = Inl Insufficient_payment)
   \<and> (\<forall>e. purchaseData c v s dataId = Inl e \<longrightarrow> after s (purchaseData c v s dataId) = s)
   \<and> (\<forall>s' evs. purchaseData c v s dataId = Inr (s', evs) \<longrightarrow>
        unat (withdrawals s' (owner (aggregatedData s dataId))) =
          unat (withdrawals s (owner (aggregatedData s dataId))) + unat v
        \<and> isSold (aggregatedData s' dataId)
        \<and> evs = [DataSold dataId (msg_sender c)])
   \<and> (dataId < aggregatedCount s \<longrightarrow> \<not> isSold (aggregatedData s dataId) \<longrightarrow>
        price (aggregatedData s dataId) \<le> v \<longrightarrow>
        unat (withdrawals s (owner (aggregatedData s dataId))) + unat v < 2 ^ 256 \<longrightarrow>
        (\<exists>s'. purchaseData c v s dataId = Inr (s', [DataSold dataId (msg_sender c)])))"
proof (intro conjI allI impI)
  fix s' evs
  assume ok: "purchaseData c v s dataId = Inr (s', evs)"
  show "unat (withdrawals s' (owner (aggregatedData s dataId))) =
          unat (withdrawals s (owner (aggregatedData s dataId))) + unat v"
    using purchaseData_Inr(4,5) [OF ok] by (simp add: unat_add_lem [THEN iffD1])
  show "isSold (aggregatedData s' dataId)"
    using purchaseData_Inr(5) [OF ok] by simp
  show "evs = [DataSold dataId (msg_sender c)]"
    using purchaseData_Inr(6) [OF ok] .
next
  assume "dataId < aggregatedCount s" "\<not> isSold (aggregatedData s dataId)"
    "price (aggregatedData s dataId) \<le> v"
    "unat (withdrawals s (owner (aggregatedData s dataId))) + unat v < 2 ^ 256"
  then show "\<exists>s'. purchaseData c v s dataId = Inr (s', [DataSold dataId (msg_sender c)])"
    using purchaseData_succeeds by blast
qed (simp_all add: purchaseData_def after_def not_le [symmetric])

theorem purchaseData_outcomes_witness:
  "purchaseData (tx_of bob) 15 shop 3 = Inl Invalid_data_ID
   \<and> purchaseData (tx_of alice) 15 shop_sold 0 = Inl Data_already_sold
   \<and> purchaseData (tx_of bob) 5 shop 0 = Inl Insufficient_payment
   \<and> after shop (purchaseData (tx_of bob) 5 shop 0) = shop
   \<and> (\<exists>s'. purchaseData (tx_of bob) 15 shop 0 = Inr (s', [DataSold 0 (msg_sender (tx_of bob))]))
   \<and> unat (withdrawals shop_sold alice) = unat (withdrawals shop alice) + unat (15 :: uint256)
   \<and> isSold (aggregatedData shop_sold 0)"
proof -
  have sold: "purchaseData (tx_of bob) 15 shop 0 = Inr (shop_sold, [DataSold 0 (msg_sender (tx_of bob))])"
    by (simp add: shop_sold_def purchaseData_def shop_fields checked_add_def after_def)
  have sold_fields: "aggregatedCount shop_sold = 1" "isSold (aggregatedData shop_sold 0)"
    by (simp_all add: shop_sold_def purchaseData_def shop_fields checked_add_def after_def)
  have 1: "purchaseData (tx_of bob) 15 shop 3 = Inl Invalid_data_ID"
    by (rule purchaseData_outcomes [THEN conjunct1, rule_format]) (simp add: shop_fields)
  have 2: "purchaseData (tx_of alice) 15 shop_sold 0 = Inl Data_already_sold"
    by (rule purchaseData_outcomes [THEN conjunct2, THEN conjunct1, rule_format])
      (simp_all add: sold_fields)
  have 3: "purchaseData (tx_of bob) 5 shop 0 = Inl Insufficient_payment"
    by (rule purchaseData_outcomes [THEN conjunct2, THEN conjunct2, THEN conjunct1, rule_format])
      (simp_all add: shop_fields)
  have 4: "after shop (purchaseData (tx_of bob) 5 shop 0) = shop"
    by (rule purchaseData_outcomes [THEN conjunct2, THEN conjunct2, THEN conjunct2,
          THEN conjunct1, rule_format]) (rule 3)
  have 5: "unat (withdrawals shop_sold (owner (aggregatedData shop 0))) =
             unat (withdrawals shop (owner (aggregatedData shop 0))) + unat (15 :: uint256)
           \<and> isSold (aggregatedData shop_sold 0)
           \<and> [DataSold 0 (msg_sender (tx_of bob))] = [DataSold 0 (msg_sender (tx_of bob))]"
    by (rule purchaseData_outcomes [THEN conjunct2, THEN conjunct2, THEN conjunct2,
          THEN conjunct2, THEN conjunct1, rule_format]) (rule sold)
  have 6: "\<exists>s'. purchaseData (tx_of bob) 15 shop 0 = Inr (s', [DataSold 0 (msg_sender (tx_of bob))])"
    by (rule purchaseData_outcomes [THEN conjunct2, THEN conjunct2, THEN conjunct2,
          THEN conjunct2, THEN conjunct2, rule_format]) (simp_all add: shop_fields)
  from 5 have 7: "unat (withdrawals shop_sold alice) = unat (withdrawals shop alice) + unat (15 :: uint256)"
    by (simp add: shop_fields)
  from 1 2 3 4 5 6 7 show ?thesis by blast
qed

text \<open>
  Claim C8. A successful \<open>purchaseData\<close> writes two storage slots and nothing else: the
  \<open>isSold\<close> flag of the dataset bought and the \<open>withdrawals\<close> balance of its owner.
  The traffic records, every other dataset, the other five fields of the dataset bought,
  every other balance, \<open>recordCount\<close> and \<open>aggregatedCount\<close> are as before. The call
  reaches no function of the FHE library, so the access-control list is as before too:
  the buyer holds exactly the access to the encrypted value held before the call.
\<close>

theorem purchaseData_frame:
  "purchaseData c v s dataId = Inr (s', evs) \<longrightarrow>
     trafficRecords s' = trafficRecords s
     \<and> recordCount s' = recordCount s
     \<and> aggregatedCount s' = aggregatedCount s
     \<and> (\<forall>d. d \<noteq> dataId \<longrightarrow> aggregatedData s' d = aggregatedData s d)
     \<and> aggregatedData s' dataId = (aggregatedData s dataId)\<lparr>isSold := True\<rparr>
     \<and> encryptedHeatmapValue (aggregatedData s' dataId) = encryptedHeatmapValue (aggregatedData s dataId)
     \<and> startTime (aggregatedData s' dataId) = startTime (aggregatedData s dataId)
     \<and> endTime (aggregatedData s' dataId) = endTime (aggregatedData s dataId)
     \<and> price (aggregatedData s' dataId) = price (aggregatedData s dataId)
     \<and> owner (aggregatedData s' dataId) = owner (aggregatedData s dataId)
     \<and> (\<forall>a. a \<noteq> owner (aggregatedData s dataId) \<longrightarrow> withdrawals s' a = withdrawals s a)
     \<and> aclAllowed s' = aclAllowed s
     \<and> aclPublic s' = aclPublic s"
  (is "_ \<longrightarrow> ?frame")
proof
  assume ok: "purchaseData c v s dataId = Inr (s', evs)"
  show ?frame
    unfolding purchaseData_Inr(5) [OF ok] by simp
qed

theorem purchaseData_frame_witness:
  "trafficRecords shop_sold = trafficRecords shop
   \<and> recordCount shop_sold = recordCount shop
   \<and> aggregatedCount shop_sold = aggregatedCount shop
   \<and> aggregatedData shop_sold 1 = aggregatedData shop 1
   \<and> aggregatedData shop_sold 0 = (aggregatedData shop 0)\<lparr>isSold := True\<rparr>
   \<and> withdrawals shop_sold bob = withdrawals shop bob
   \<and> aclAllowed shop_sold = aclAllowed shop
   \<and> aclPublic shop_sold = aclPublic shop"
  using purchaseData_frame [of "tx_of bob" 15 shop 0 shop_sold "[DataSold 0 (msg_sender (tx_of bob))]"]
    shop_purchase
  by (simp add: shop_fields alice_def bob_def)

text \<open>
  Claim C10. \<open>isAvailable\<close> is a constant: it is \<open>true\<close>, the call cannot revert, and
  its answer is the same in any two states of the ledger.
\<close>

theorem isAvailable_constant:
  "isAvailable = True
   \<and> view_call s IsAvailable = Inr (ABool True)
   \<and> view_call s IsAvailable = view_call s' IsAvailable"
  by (simp add: isAvailable_def)

text \<open>
  Claim C9. \<open>purchaseData\<close> never compares \<open>msg.sender\<close> with the owner: two callers
  paying the same amount for the same dataset get the same revert or the same new
  state. In particular the owner of an unsold dataset who pays at least the price buys
  it: the dataset is marked sold and the whole payment lands in the owner's own
  balance, from where \<open>withdraw\<close> pays it back out. The balance is a \<open>uint256\<close> under
  checked arithmetic, so the credit has to fit: the sum of the old balance and the
  payment stays below \<open>2 ^ 256\<close>.
\<close>

theorem owner_purchases_own_dataset:
  "map_sum id fst (purchaseData c v s dataId) = map_sum id fst (purchaseData c' v s dataId)
   \<and> (dataId < aggregatedCount s \<longrightarrow> \<not> isSold (aggregatedData s dataId) \<longrightarrow>
        msg_sender c = owner (aggregatedData s dataId) \<longrightarrow>
        price (aggregatedData s dataId) \<le> v \<longrightarrow>
        unat (withdrawals s (msg_sender c)) + unat v < 2 ^ 256 \<longrightarrow>
        (\<exists>s'. purchaseData c v s dataId = Inr (s', [DataSold dataId (msg_sender c)])
              \<and> isSold (aggregatedData s' dataId)
              \<and> unat (withdrawals s' (msg_sender c)) = unat (withdrawals s (msg_sender c)) + unat v
              \<and> (\<forall>acc. acc (s'\<lparr>withdrawals := (withdrawals s')(msg_sender c := 0)\<rparr>) (msg_sender c)
                         (withdrawals s (msg_sender c) + v) \<longrightarrow> 0 < v \<longrightarrow>
                    withdraw acc c s' =
                      Inr (s'\<lparr>withdrawals := (withdrawals s')(msg_sender c := 0)\<rparr>,
                           [Withdrawal (msg_sender c) (withdrawals s (msg_sender c) + v)]))))"
proof (intro conjI impI)
  show "map_sum id fst (purchaseData c v s dataId) = map_sum id fst (purchaseData c' v s dataId)"
    by (simp add: purchaseData_def Let_def split: sum.splits)
next
  assume h: "dataId < aggregatedCount s" "\<not> isSold (aggregatedData s dataId)"
    "msg_sender c = owner (aggregatedData s dataId)"
    "price (aggregatedData s dataId) \<le> v"
    "unat (withdrawals s (msg_sender c)) + unat v < 2 ^ 256"
  let ?s' = "s\<lparr>withdrawals := (withdrawals s)(owner (aggregatedData s dataId) :=
                   withdrawals s (owner (aggregatedData s dataId)) + v),
                aggregatedData := (aggregatedData s)(dataId := (aggregatedData s dataId)\<lparr>isSold := True\<rparr>)\<rparr>"
  have ok: "purchaseData c v s dataId = Inr (?s', [DataSold dataId (msg_sender c)])"
    using h by (intro purchaseData_succeeds) simp_all
  have sum: "unat (withdrawals s (msg_sender c) + v) = unat (withdrawals s (msg_sender c)) + unat v"
    using h(5) by (simp add: unat_add_lem [THEN iffD1])
  have pos: "0 < v \<Longrightarrow> withdrawals s (msg_sender c) + v \<noteq> 0"
    using sum by (metis add_is_0 unat_eq_zero word_greater_zero_iff)
  show "\<exists>s'. purchaseData c v s dataId = Inr (s', [DataSold dataId (msg_sender c)])
              \<and> isSold (aggregatedData s' dataId)
              \<and> unat (withdrawals s' (msg_sender c)) = unat (withdrawals s (msg_sender c)) + unat v
              \<and> (\<forall>acc. acc (s'\<lparr>withdrawals := (withdrawals s')(msg_sender c := 0)\<rparr>) (msg_sender c)
                         (withdrawals s (msg_sender c) + v) \<longrightarrow> 0 < v \<longrightarrow>
                    withdraw acc c s' =
                      Inr (s'\<lparr>withdrawals := (withdrawals s')(msg_sender c := 0)\<rparr>,
                           [Withdrawal (msg_sender c) (withdrawals s (msg_sender c) + v)]))"
  proof (intro exI [of _ ?s'] conjI allI impI)
    show "purchaseData c v s dataId = Inr (?s', [DataSold dataId (msg_sender c)])" by (rule ok)
    show "isSold (aggregatedData ?s' dataId)" by simp
    show "unat (withdrawals ?s' (msg_sender c)) = unat (withdrawals s (msg_sender c)) + unat v"
      using sum h(3) by simp
  next
    fix acc
    assume "acc (?s'\<lparr>withdrawals := (withdrawals ?s')(msg_sender c := 0)\<rparr>) (msg_sender c)
              (withdrawals s (msg_sender c) + v)" and "0 < v"
    then show "withdraw acc c ?s' =
                 Inr (?s'\<lparr>withdrawals := (withdrawals ?s')(msg_sender c := 0)\<rparr>,
                      [Withdrawal (msg_sender c) (withdrawals s (msg_sender c) + v)])"
      using pos h(3) by (simp add: withdraw_def Let_def word_greater_zero_iff)
  qed
qed

theorem owner_purchases_own_dataset_witness:
  "0 < aggregatedCount shop
   \<and> \<not> isSold (aggregatedData shop 0)
   \<and> msg_sender (tx_of alice) = owner (aggregatedData shop 0)
   \<and> price (aggregatedData shop 0) \<le> 10
   \<and> unat (withdrawals shop (msg_sender (tx_of alice))) + unat (10 :: uint256) < 2 ^ 256
   \<and> (\<exists>s'. purchaseData (tx_of alice) 10 shop 0 = Inr (s', [DataSold 0 (msg_sender (tx_of alice))])
          \<and> isSold (aggregatedData s' 0)
          \<and> unat (withdrawals s' (msg_sender (tx_of alice))) =
              unat (withdrawals shop (msg_sender (tx_of alice))) + unat (10 :: uint256)
          \<and> withdraw payee_accepts (tx_of alice) s' =
              Inr (s'\<lparr>withdrawals := (withdrawals s')(msg_sender (tx_of alice) := 0)\<rparr>,
                   [Withdrawal (msg_sender (tx_of alice))
                      (withdrawals shop (msg_sender (tx_of alice)) + 10)]))"
proof -
  have h: "0 < aggregatedCount shop" "\<not> isSold (aggregatedData shop 0)"
    "msg_sender (tx_of alice) = owner (aggregatedData shop 0)"
    "price (aggregatedData shop 0) \<le> 10"
    "unat (withdrawals shop (msg_sender (tx_of alice))) + unat (10 :: uint256) < 2 ^ 256"
    by (simp_all add: shop_fields tx_of_def)
  from owner_purchases_own_dataset [of "tx_of alice" 10 shop 0 "tx_of bob", THEN conjunct2,
      rule_format, OF h]
  obtain s' where s':
    "purchaseData (tx_of alice) 10 shop 0 = Inr (s', [DataSold 0 (msg_sender (tx_of alice))])"
    "isSold (aggregatedData s' 0)"
    "unat (withdrawals s' (msg_sender (tx_of alice))) =
       unat (withdrawals shop (msg_sender (tx_of alice))) + unat (10 :: uint256)"
    "\<forall>acc. acc (s'\<lparr>withdrawals := (withdrawals s')(msg_sender (tx_of alice) := 0)\<rparr>)
             (msg_sender (tx_of alice)) (withdrawals shop (msg_sender (tx_of alice)) + 10) \<longrightarrow>
           0 < (10 :: uint256) \<longrightarrow>
           withdraw acc (tx_of alice) s' =
             Inr (s'\<lparr>withdrawals := (withdrawals s')(msg_sender (tx_of alice) := 0)\<rparr>,
                  [Withdrawal (msg_sender (tx_of alice))
                     (withdrawals shop (msg_sender (tx_of alice)) + 10)])"
    by blast
  have "withdraw payee_accepts (tx_of alice) s' =
          Inr (s'\<lparr>withdrawals := (withdrawals s')(msg_sender (tx_of alice) := 0)\<rparr>,
               [Withdrawal (msg_sender (tx_of alice))
                  (withdrawals shop (msg_sender (tx_of alice)) + 10)])"
    using s'(4) [rule_format, of payee_accepts] by (simp add: payee_accepts_def)
  with h s'(1,2,3) show ?thesis by blast
qed

subsection \<open>A dataset is sold once\<close>

lemma after_Inl [simp]: "after s (Inl e) = s"
  by (simp add: after_def)

lemma after_Inr [simp]: "after s (Inr (s', evs)) = s'"
  by (simp add: after_def)

lemma exec_keeps_sold:
  assumes "d < aggregatedCount s" and "isSold (aggregatedData s d)"
  shows "d < aggregatedCount (after s (exec fx acc c s k))
         \<and> aggregatedData (after s (exec fx acc c s k)) d = aggregatedData s d"
proof (cases "exec fx acc c s k")
  case (Inl e)
  with assms show ?thesis by simp
next
  case (Inr r)
  obtain s' evs where r: "r = (s', evs)" by (cases r)
  show ?thesis
  proof (cases k)
    case (AddTrafficRecord a pa b pb x px)
    with Inr r have "addTrafficRecord fx c s a pa b pb x px = Inr (s', evs)" by simp
    from addTrafficRecord_Inr(7,8) [OF this] assms Inr r show ?thesis by simp
  next
    case (CreateAggregatedData h ph st en pr)
    with Inr r have ok: "createAggregatedData fx c s h ph st en pr = Inr (s', evs)" by simp
    have "unat (aggregatedCount s + 1) = unat (aggregatedCount s) + 1"
      using createAggregatedData_Inr(4) [OF ok] by (simp add: unat_add_lem [THEN iffD1])
    then have "d < aggregatedCount s + 1"
      using assms(1) by (simp add: word_less_nat_alt)
    moreover have "d \<noteq> aggregatedCount s"
      using assms(1) by auto
    ultimately show ?thesis
      using createAggregatedData_Inr(5,6) [OF ok] Inr r by simp
  next
    case (PurchaseData dataId v)
    with Inr r have ok: "purchaseData c v s dataId = Inr (s', evs)" by simp
    have "dataId \<noteq> d"
      using purchaseData_Inr(2) [OF ok] assms(2) by auto
    then show ?thesis
      using purchaseData_Inr(5) [OF ok] assms Inr r by simp
  next
    case Withdraw
    with Inr r have "withdraw acc c s = Inr (s', evs)" by simp
    from withdraw_Inr(3) [OF this] assms Inr r show ?thesis by simp
  qed
qed

lemma run_keeps_sold:
  "d < aggregatedCount s \<Longrightarrow> isSold (aggregatedData s d) \<Longrightarrow>
     d < aggregatedCount (run s txs) \<and> aggregatedData (run s txs) d = aggregatedData s d"
proof (induction txs arbitrary: s)
  case Nil
  then show ?case by simp
next
  case (Cons t txs)
  obtain fx acc c k where t: "t = (fx, acc, c, k)" by (cases t)
  let ?s = "after s (exec fx acc c s k)"
  have step: "d < aggregatedCount ?s \<and> aggregatedData ?s d = aggregatedData s d"
    using exec_keeps_sold [OF Cons.prems] .
  then have "d < aggregatedCount (run ?s txs) \<and> aggregatedData (run ?s txs) d = aggregatedData ?s d"
    using Cons.IH [of ?s] Cons.prems(2) by simp
  with step t show ?case by simp
qed

lemma run_failed_attempts:
  "dataId < aggregatedCount s \<Longrightarrow> isSold (aggregatedData s dataId) \<Longrightarrow>
     run s (attempts_on fx acc dataId xs) = s"
  by (induction xs) (auto simp: attempts_on_def purchaseData_def)

text \<open>
  Claim C1. Once a purchase of a dataset has succeeded, the credit to the owner is the
  payment of that purchase, read as a natural number. From then on, after any further
  transactions whatever (records added, datasets created, other purchases,
  withdrawals, reverted calls), the dataset is still marked sold, still has the same
  owner, and a purchase of it by any buyer with any payment reverts with
  \<open>Data already sold\<close> (AlreadySold). Any run of further purchase attempts on the dataset
  therefore leaves the whole state, the owner's balance included, exactly as the first
  purchase left it.
\<close>

theorem purchase_succeeds_at_most_once:
  "purchaseData c v s dataId = Inr (s1, evs) \<longrightarrow>
     unat (withdrawals s1 (owner (aggregatedData s dataId))) =
       unat (withdrawals s (owner (aggregatedData s dataId))) + unat v
     \<and> (\<forall>txs. isSold (aggregatedData (run s1 txs) dataId)
              \<and> owner (aggregatedData (run s1 txs) dataId) = owner (aggregatedData s dataId)
              \<and> (\<forall>c' v'. purchaseData c' v' (run s1 txs) dataId = Inl Data_already_sold))
     \<and> (\<forall>xs. run s1 (attempts_on fx acc dataId xs) = s1)"
  (is "_ \<longrightarrow> ?credit \<and> ?later \<and> ?again")
proof
  assume ok: "purchaseData c v s dataId = Inr (s1, evs)"
  have s1: "dataId < aggregatedCount s1" "isSold (aggregatedData s1 dataId)"
    "owner (aggregatedData s1 dataId) = owner (aggregatedData s dataId)"
    using purchaseData_Inr(1) [OF ok] unfolding purchaseData_Inr(5) [OF ok] by simp_all
  have ?credit
    using purchaseData_Inr(4) [OF ok] unfolding purchaseData_Inr(5) [OF ok]
    by (simp add: unat_add_lem [THEN iffD1])
  moreover have ?later
  proof
    fix txs
    show "isSold (aggregatedData (run s1 txs) dataId)
        \<and> owner (aggregatedData (run s1 txs) dataId) = owner (aggregatedData s dataId)
        \<and> (\<forall>c' v'. purchaseData c' v' (run s1 txs) dataId = Inl Data_already_sold)"
      using run_keeps_sold [OF s1(1,2), of txs] s1(2,3) by (simp add: purchaseData_def)
  qed
  moreover have ?again
    using s1(1,2) by (simp add: run_failed_attempts)
  ultimately show "?credit \<and> ?later \<and> ?again"
    by blast
qed

theorem purchase_succeeds_at_most_once_witness:
  "purchaseData (tx_of bob) 15 shop 0 = Inr (shop_sold, [DataSold 0 (msg_sender (tx_of bob))])
   \<and> unat (withdrawals shop_sold alice) = unat (withdrawals shop alice) + unat (15 :: uint256)
   \<and> isSold (aggregatedData (run shop_sold [(fx_demo, payee_accepts, tx_of alice, Withdraw)]) 0)
   \<and> purchaseData (tx_of alice) 1000
        (run shop_sold [(fx_demo, payee_accepts, tx_of alice, Withdraw)]) 0 = Inl Data_already_sold
   \<and> run shop_sold (attempts_on fx_demo payee_accepts 0 [(tx_of bob, 15), (tx_of alice, 1000)])
        = shop_sold"
proof -
  note T = purchase_succeeds_at_most_once [of "tx_of bob" 15 shop 0 shop_sold
      "[DataSold 0 (msg_sender (tx_of bob))]" fx_demo payee_accepts, rule_format, OF shop_purchase]
  have "unat (withdrawals shop_sold alice) = unat (withdrawals shop alice) + unat (15 :: uint256)"
    using T [THEN conjunct1] by (simp add: shop_fields)
  moreover note T [THEN conjunct2, THEN conjunct1, rule_format,
      of "[(fx_demo, payee_accepts, tx_of alice, Withdraw)]"]
  moreover note T [THEN conjunct2, THEN conjunct2, rule_format,
      of "[(tx_of bob, 15), (tx_of alice, 1000)]"]
  ultimately show ?thesis
    using shop_purchase by blast
qed

subsection \<open>Withdrawal\<close>

lemma exec_keeps_zero:
  assumes "withdrawals s a = 0" and "\<not> is_purchase k"
  shows "withdrawals (after s (exec fx acc c s k)) a = 0"
proof (cases "exec fx acc c s k")
  case (Inl e)
  with assms show ?thesis by simp
next
  case (Inr r)
  obtain s' evs where r: "r = (s', evs)" by (cases r)
  show ?thesis
  proof (cases k)
    case (AddTrafficRecord a pa b pb x px)
    with Inr r have "addTrafficRecord fx c s a pa b pb x px = Inr (s', evs)" by simp
    from addTrafficRecord_Inr(9) [OF this] assms Inr r show ?thesis by simp
  next
    case (CreateAggregatedData h ph st en pr)
    with Inr r have "createAggregatedData fx c s h ph st en pr = Inr (s', evs)" by simp
    from createAggregatedData_Inr(9) [OF this] assms Inr r show ?thesis by simp
  next
    case (PurchaseData dataId v)
    with assms(2) show ?thesis by simp
  next
    case Withdraw
    with Inr r have "withdraw acc c s = Inr (s', evs)" by simp
    from withdraw_Inr(3) [OF this] assms Inr r show ?thesis by simp
  qed
qed

lemma run_keeps_zero:
  "withdrawals s a = 0 \<Longrightarrow> \<forall>t \<in> set txs. \<not> is_purchase (call_of t) \<Longrightarrow>
     withdrawals (run s txs) a = 0"
proof (induction txs arbitrary: s)
  case Nil
  then show ?case by simp
next
  case (Cons t txs)
  obtain fx acc c k where t: "t = (fx, acc, c, k)" by (cases t)
  with Cons.prems(2) have k: "\<not> is_purchase k" by (simp add: call_of_def)
  have "withdrawals (after s (exec fx acc c s k)) a = 0"
    using exec_keeps_zero [OF Cons.prems(1) k] .
  then have "withdrawals (run (after s (exec fx acc c s k)) txs) a = 0"
    using Cons.IH Cons.prems(2) by simp
  with t show ?case by simp
qed

lemma shop_sold_fields:
  "withdrawals shop_sold (msg_sender (tx_of alice)) = 15"
  "withdrawals shop_sold (msg_sender (tx_of bob)) = 0"
  by (simp_all add: purchaseData_Inr(5) [OF shop_purchase] shop_fields tx_of_def alice_def bob_def)

text \<open>
  Claim C3 fails as stated. On the freshly deployed contract every balance is zero, and
  two withdrawals in a row by the same principal both revert with
  \<open>No funds to withdraw\<close>: two failures, no success. With funds in escrow but a payee
  that does not take the transfer, both calls revert as well, and neither with
  \<open>No funds to withdraw\<close>.
\<close>

theorem withdraw_twice_counterexample:
  "withdraw payee_accepts (tx_of alice) deployed = Inl No_funds_to_withdraw
   \<and> withdraw payee_accepts (tx_of alice)
        (after deployed (withdraw payee_accepts (tx_of alice) deployed)) = Inl No_funds_to_withdraw
   \<and> withdrawals shop_sold (msg_sender (tx_of alice)) = 15
   \<and> withdraw payee_rejects (tx_of alice) shop_sold = Inl TransferFailed
   \<and> withdraw payee_rejects (tx_of alice)
        (after shop_sold (withdraw payee_rejects (tx_of alice) shop_sold)) = Inl TransferFailed"
  by (simp add: withdraw_def deployed_def after_def shop_sold_fields payee_rejects_def)

text \<open>
  Claim C3, amended. \<open>withdraw\<close> reverts with \<open>No funds to withdraw\<close> (NoFunds) exactly
  when the caller's balance is zero. A successful call has asked the payee to take the
  transfer in the state where the caller's balance is already zero, leaves that balance
  zero and emits \<open>Withdrawal\<close> with the old balance. So for a principal whose balance is
  not zero and who takes the transfer, the first withdrawal succeeds and the next one,
  after any transactions among which there is no purchase, reverts with
  \<open>No funds to withdraw\<close>.
\<close>

theorem withdraw_once_then_NoFunds:
  "(withdraw acc c s = Inl No_funds_to_withdraw \<longleftrightarrow> withdrawals s (msg_sender c) = 0)
   \<and> (\<forall>s1 evs. withdraw acc c s = Inr (s1, evs) \<longrightarrow>
         acc (s\<lparr>withdrawals := (withdrawals s)(msg_sender c := 0)\<rparr>) (msg_sender c)
           (withdrawals s (msg_sender c))
         \<and> withdrawals s1 (msg_sender c) = 0
         \<and> evs = [Withdrawal (msg_sender c) (withdrawals s (msg_sender c))])
   \<and> (withdrawals s (msg_sender c) \<noteq> 0 \<longrightarrow>
        acc (s\<lparr>withdrawals := (withdrawals s)(msg_sender c := 0)\<rparr>) (msg_sender c)
          (withdrawals s (msg_sender c)) \<longrightarrow>
        (\<exists>s1 evs. withdraw acc c s = Inr (s1, evs)
           \<and> (\<forall>txs acc' c'. (\<forall>t \<in> set txs. \<not> is_purchase (call_of t)) \<longrightarrow>
                 msg_sender c' = msg_sender c \<longrightarrow>
                 withdraw acc' c' (run s1 txs) = Inl No_funds_to_withdraw)))"
proof (intro conjI allI impI)
  show "withdraw acc c s = Inl No_funds_to_withdraw \<longleftrightarrow> withdrawals s (msg_sender c) = 0"
    by (rule withdraw_NoFunds)
next
  fix s1 evs
  assume ok: "withdraw acc c s = Inr (s1, evs)"
  show "acc (s\<lparr>withdrawals := (withdrawals s)(msg_sender c := 0)\<rparr>) (msg_sender c)
           (withdrawals s (msg_sender c))"
    by (rule withdraw_Inr(2) [OF ok])
  show "withdrawals s1 (msg_sender c) = 0"
    unfolding withdraw_Inr(3) [OF ok] by simp
  show "evs = [Withdrawal (msg_sender c) (withdrawals s (msg_sender c))]"
    by (rule withdraw_Inr(4) [OF ok])
next
  let ?s1 = "s\<lparr>withdrawals := (withdrawals s)(msg_sender c := 0)\<rparr>"
  assume funds: "withdrawals s (msg_sender c) \<noteq> 0"
    and paid: "acc ?s1 (msg_sender c) (withdrawals s (msg_sender c))"
  have first: "withdraw acc c s = Inr (?s1, [Withdrawal (msg_sender c) (withdrawals s (msg_sender c))])"
    using funds paid by (simp add: withdraw_def Let_def word_greater_zero_iff)
  have second: "withdraw acc' c' (run ?s1 txs) = Inl No_funds_to_withdraw"
    if "\<forall>t \<in> set txs. \<not> is_purchase (call_of t)" and "msg_sender c' = msg_sender c"
    for txs acc' c'
  proof -
    have "withdrawals (run ?s1 txs) (msg_sender c) = 0"
      using that(1) by (intro run_keeps_zero) simp_all
    then show ?thesis
      using that(2) by (simp add: withdraw_NoFunds)
  qed
  from first second
  show "\<exists>s1 evs. withdraw acc c s = Inr (s1, evs)
           \<and> (\<forall>txs acc' c'. (\<forall>t \<in> set txs. \<not> is_purchase (call_of t)) \<longrightarrow>
                 msg_sender c' = msg_sender c \<longrightarrow>
                 withdraw acc' c' (run s1 txs) = Inl No_funds_to_withdraw)"
    by blast
qed

theorem withdraw_once_then_NoFunds_witness:
  "withdrawals shop_sold (msg_sender (tx_of alice)) \<noteq> 0
   \<and> withdrawals shop_sold (msg_sender (tx_of bob)) = 0
   \<and> withdraw payee_accepts (tx_of bob) shop_sold = Inl No_funds_to_withdraw
   \<and> (\<exists>s1 evs. withdraw payee_accepts (tx_of alice) shop_sold = Inr (s1, evs)
         \<and> withdrawals s1 (msg_sender (tx_of alice)) = 0
         \<and> evs = [Withdrawal (msg_sender (tx_of alice)) 15]
         \<and> withdraw payee_rejects (tx_of alice)
              (run s1 [(fx_demo, payee_accepts, tx_of bob, Withdraw)]) = Inl No_funds_to_withdraw)"
proof -
  note T = withdraw_once_then_NoFunds [of payee_accepts _ shop_sold]
  have a: "withdrawals shop_sold (msg_sender (tx_of alice)) \<noteq> 0"
    and b: "withdrawals shop_sold (msg_sender (tx_of bob)) = 0"
    by (simp_all add: shop_sold_fields)
  have acc: "payee_accepts
      (shop_sold\<lparr>withdrawals := (withdrawals shop_sold)(msg_sender (tx_of alice) := 0)\<rparr>)
      (msg_sender (tx_of alice)) (withdrawals shop_sold (msg_sender (tx_of alice)))"
    by (simp add: payee_accepts_def)
  have 1: "withdraw payee_accepts (tx_of bob) shop_sold = Inl No_funds_to_withdraw"
    using T [of "tx_of bob", THEN conjunct1] b by simp
  from T [of "tx_of alice", THEN conjunct2, THEN conjunct2, rule_format, OF a acc]
  obtain s1 evs where s1: "withdraw payee_accepts (tx_of alice) shop_sold = Inr (s1, evs)"
    and again: "\<forall>txs acc' c'. (\<forall>t \<in> set txs. \<not> is_purchase (call_of t)) \<longrightarrow>
                 msg_sender c' = msg_sender (tx_of alice) \<longrightarrow>
                 withdraw acc' c' (run s1 txs) = Inl No_funds_to_withdraw"
    by blast
  have 2: "withdrawals s1 (msg_sender (tx_of alice)) = 0
      \<and> evs = [Withdrawal (msg_sender (tx_of alice)) 15]"
    using T [of "tx_of alice", THEN conjunct2, THEN conjunct1, rule_format, OF s1]
    by (simp add: shop_sold_fields)
  have 3: "withdraw payee_rejects (tx_of alice)
              (run s1 [(fx_demo, payee_accepts, tx_of bob, Withdraw)]) = Inl No_funds_to_withdraw"
    using again [rule_format, of "[(fx_demo, payee_accepts, tx_of bob, Withdraw)]" "tx_of alice" payee_rejects]
    by (simp add: call_of_def)
  from a b 1 s1 2 3 show ?thesis by blast
qed

subsection \<open>Creating a dataset\<close>

text \<open>
  Claim C5 fails as stated. The ciphertext check is the first statement of
  \<open>createAggregatedData\<close>. With the window 100 to 50 and a handle that is not
  initialised the call reverts with \<open>Invalid encrypted heatmap value\<close>, and with a proof
  the library rejects it reverts inside the library: in neither case with
  \<open>Invalid time range\<close>.
\<close>

theorem createAggregatedData_counterexample:
  "\<not> (100 :: uint256) < 50
   \<and> createAggregatedData fx_zero (tx_of alice) deployed 7 [1] 100 50 10
       = Inl Invalid_encrypted_heatmap_value
   \<and> createAggregatedData fx_demo (tx_of alice) deployed 7 [] 100 50 10 = Inl InputProofRejected
   \<and> Invalid_encrypted_heatmap_value \<noteq> Invalid_time_range
   \<and> InputProofRejected \<noteq> Invalid_time_range"
  by (simp add: createAggregatedData_def require_input_def fx_zero_def fx_demo_def isInitialized_def)

text \<open>
  Claim C5, amended. Whenever \<open>startTime >= endTime\<close> or \<open>price == 0\<close> the call reverts,
  whether or not the ciphertext and proof are valid, and the state, \<open>aggregatedCount\<close>
  included, is as before. Which error it is follows the order of the checks: with a
  valid ciphertext, \<open>Invalid time range\<close> (InvalidTimeRange) when
  \<open>startTime >= endTime\<close>, and \<open>Price must be greater than zero\<close> (InvalidPrice) when the
  window is in order and the price is zero; with an invalid ciphertext, an
  InvalidCiphertext error whatever the window and the price.
\<close>

theorem createAggregatedData_rejects:
  "(\<not> st < en \<or> pr = 0 \<longrightarrow>
      (\<exists>e. createAggregatedData fx c s h ph st en pr = Inl e)
      \<and> after s (createAggregatedData fx c s h ph st en pr) = s
      \<and> getTotalAggregatedData (after s (createAggregatedData fx c s h ph st en pr))
          = getTotalAggregatedData s)
   \<and> (input_ok fx h ph \<longrightarrow> \<not> st < en \<longrightarrow>
        createAggregatedData fx c s h ph st en pr = Inl Invalid_time_range)
   \<and> (input_ok fx h ph \<longrightarrow> st < en \<longrightarrow> pr = 0 \<longrightarrow>
        createAggregatedData fx c s h ph st en pr = Inl Price_must_be_greater_than_zero)
   \<and> (\<not> input_ok fx h ph \<longrightarrow>
        (\<exists>e \<in> InvalidCiphertext. createAggregatedData fx c s h ph st en pr = Inl e))"
proof (intro conjI impI)
  assume bad: "\<not> st < en \<or> pr = 0"
  have "\<exists>e. createAggregatedData fx c s h ph st en pr = Inl e"
  proof (cases "createAggregatedData fx c s h ph st en pr")
    case (Inl e)
    then show ?thesis by blast
  next
    case (Inr r)
    obtain s' evs where "r = (s', evs)" by (cases r)
    with Inr createAggregatedData_Inr(2,3) [of fx c s h ph st en pr s' evs] bad
    show ?thesis by auto
  qed
  then show "\<exists>e. createAggregatedData fx c s h ph st en pr = Inl e"
    and "after s (createAggregatedData fx c s h ph st en pr) = s"
    and "getTotalAggregatedData (after s (createAggregatedData fx c s h ph st en pr))
          = getTotalAggregatedData s"
    by auto
next
  assume "input_ok fx h ph" "\<not> st < en"
  then show "createAggregatedData fx c s h ph st en pr = Inl Invalid_time_range"
    by (auto simp: createAggregatedData_def require_input_def input_ok_def split: option.splits)
next
  assume "input_ok fx h ph" "st < en" "pr = 0"
  then show "createAggregatedData fx c s h ph st en pr = Inl Price_must_be_greater_than_zero"
    by (auto simp: createAggregatedData_def require_input_def input_ok_def split: option.splits)
next
  assume "\<not> input_ok fx h ph"
  then show "\<exists>e \<in> InvalidCiphertext. createAggregatedData fx c s h ph st en pr = Inl e"
    by (auto simp: createAggregatedData_def require_input_def input_ok_def InvalidCiphertext_def
        split: option.splits)
qed

theorem createAggregatedData_rejects_witness:
  "\<not> (100 :: uint256) < 50
   \<and> input_ok fx_demo 7 [1]
   \<and> \<not> input_ok fx_demo 7 []
   \<and> createAggregatedData fx_demo (tx_of alice) shop 7 [1] 100 50 10 = Inl Invalid_time_range
   \<and> after shop (createAggregatedData fx_demo (tx_of alice) shop 7 [1] 100 50 10) = shop
   \<and> createAggregatedData fx_demo (tx_of alice) shop 7 [1] 50 100 0
       = Inl Price_must_be_greater_than_zero
   \<and> (\<exists>e \<in> InvalidCiphertext.
         createAggregatedData fx_demo (tx_of alice) shop 7 [] 100 50 10 = Inl e)
   \<and> after shop (createAggregatedData fx_demo (tx_of alice) shop 7 [] 100 50 10) = shop"
proof -
  note T = createAggregatedData_rejects [of _ _ _ fx_demo "tx_of alice" shop 7]
  have ok: "input_ok fx_demo 7 [1]" and bad: "\<not> input_ok fx_demo 7 []"
    by (simp_all add: input_ok_def fx_demo_def isInitialized_def)
  have range: "\<not> (100 :: uint256) < 50" by simp
  have 1: "createAggregatedData fx_demo (tx_of alice) shop 7 [1] 100 50 10 = Inl Invalid_time_range"
    using T [of 100 50 10 "[1]", THEN conjunct2, THEN conjunct1] ok range by blast
  have 2: "after shop (createAggregatedData fx_demo (tx_of alice) shop 7 [1] 100 50 10) = shop"
    using T [of 100 50 10 "[1]", THEN conjunct1] range by blast
  have 3: "createAggregatedData fx_demo (tx_of alice) shop 7 [1] 50 100 0
       = Inl Price_must_be_greater_than_zero"
    using T [of 50 100 0 "[1]", THEN conjunct2, THEN conjunct2, THEN conjunct1] ok by simp
  have 4: "\<exists>e \<in> InvalidCiphertext.
         createAggregatedData fx_demo (tx_of alice) shop 7 [] 100 50 10 = Inl e"
    using T [of 100 50 10 "[]", THEN conjunct2, THEN conjunct2, THEN conjunct2] bad by blast
  have 5: "after shop (createAggregatedData fx_demo (tx_of alice) shop 7 [] 100 50 10) = shop"
    using T [of 100 50 10 "[]", THEN conjunct1] range by blast
  from range ok bad 1 2 3 4 5 show ?thesis by blast
qed

subsection \<open>Submitting a record\<close>

text \<open>
  Claim C4. \<open>addTrafficRecord\<close> has no return value: the identifier of the new record is
  the key under which it is stored and the first argument of the \<open>TrafficRecordAdded\<close>
  event. For every submission the contract accepts, that identifier is the value
  \<open>getTotalRecords\<close> had before the call, the record is readable under it afterwards,
  and \<open>getTotalRecords\<close> has grown by exactly one (as a natural number: the call would
  revert rather than wrap). The contract accepts a submission whose three ciphertexts
  pass their checks while the counter has room. If any of the three checks fails the
  call reverts with an InvalidCiphertext error and nothing is written: the state, the
  record table and the counter are as before.
\<close>

theorem addTrafficRecord_sequential_id:
  "(\<forall>s' evs. addTrafficRecord fx c s a pa b pb d pd = Inr (s', evs) \<longrightarrow>
      evs = [TrafficRecordAdded (getTotalRecords s) (msg_sender c)]
      \<and> getTrafficRecord s' (getTotalRecords s) =
          Inr \<lparr>encryptedSpeed = the (fx a pa), encryptedLocationX = the (fx b pb),
               encryptedLocationY = the (fx d pd), timestamp = block_timestamp c,
               vehicleOwner = msg_sender c\<rparr>
      \<and> getTotalRecords s' = getTotalRecords s + 1
      \<and> unat (getTotalRecords s') = unat (getTotalRecords s) + 1)
   \<and> (input_ok fx a pa \<longrightarrow> input_ok fx b pb \<longrightarrow> input_ok fx d pd \<longrightarrow>
        unat (getTotalRecords s) + 1 < 2 ^ 256 \<longrightarrow>
        (\<exists>s'. addTrafficRecord fx c s a pa b pb d pd =
                Inr (s', [TrafficRecordAdded (getTotalRecords s) (msg_sender c)])))
   \<and> (\<not> (input_ok fx a pa \<and> input_ok fx b pb \<and> input_ok fx d pd) \<longrightarrow>
        (\<exists>e \<in> InvalidCiphertext. addTrafficRecord fx c s a pa b pb d pd = Inl e)
        \<and> after s (addTrafficRecord fx c s a pa b pb d pd) = s
        \<and> getTotalRecords (after s (addTrafficRecord fx c s a pa b pb d pd)) = getTotalRecords s
        \<and> trafficRecords (after s (addTrafficRecord fx c s a pa b pb d pd)) = trafficRecords s)"
proof (intro conjI allI impI)
  fix s' evs
  assume ok: "addTrafficRecord fx c s a pa b pb d pd = Inr (s', evs)"
  note R = addTrafficRecord_Inr [OF ok]
  show "evs = [TrafficRecordAdded (getTotalRecords s) (msg_sender c)]"
    using R(10) by (simp add: getTotalRecords_def)
  have sum: "unat (recordCount s + 1) = unat (recordCount s) + 1"
    using R(4) by (simp add: unat_add_lem [THEN iffD1])
  then have "recordCount s < recordCount s + 1"
    by (simp add: word_less_nat_alt)
  then show "getTrafficRecord s' (getTotalRecords s) =
          Inr \<lparr>encryptedSpeed = the (fx a pa), encryptedLocationX = the (fx b pb),
               encryptedLocationY = the (fx d pd), timestamp = block_timestamp c,
               vehicleOwner = msg_sender c\<rparr>"
    using R(5,6) by (simp add: getTrafficRecord_def getTotalRecords_def)
  show "getTotalRecords s' = getTotalRecords s + 1"
    using R(5) by (simp add: getTotalRecords_def)
  show "unat (getTotalRecords s') = unat (getTotalRecords s) + 1"
    using R(5) sum by (simp add: getTotalRecords_def)
next
  assume "input_ok fx a pa" "input_ok fx b pb" "input_ok fx d pd"
    "unat (getTotalRecords s) + 1 < 2 ^ 256"
  then show "\<exists>s'. addTrafficRecord fx c s a pa b pb d pd =
                Inr (s', [TrafficRecordAdded (getTotalRecords s) (msg_sender c)])"
    using addTrafficRecord_succeeds [of fx a pa b pb d pd s c] by (simp add: getTotalRecords_def)
next
  assume bad: "\<not> (input_ok fx a pa \<and> input_ok fx b pb \<and> input_ok fx d pd)"
  have fails: "\<exists>e \<in> InvalidCiphertext. addTrafficRecord fx c s a pa b pb d pd = Inl e"
  proof (cases "addTrafficRecord fx c s a pa b pb d pd")
    case (Inl e)
    with addTrafficRecord_Inl [OF Inl] bad show ?thesis by blast
  next
    case (Inr r)
    obtain s' evs where "r = (s', evs)" by (cases r)
    with Inr addTrafficRecord_Inr(1,2,3) [of fx c s a pa b pb d pd s' evs] bad
    show ?thesis by blast
  qed
  then show "\<exists>e \<in> InvalidCiphertext. addTrafficRecord fx c s a pa b pb d pd = Inl e" .
  from fails show "after s (addTrafficRecord fx c s a pa b pb d pd) = s" by auto
  from fails show "getTotalRecords (after s (addTrafficRecord fx c s a pa b pb d pd)) = getTotalRecords s"
    by auto
  from fails show "trafficRecords (after s (addTrafficRecord fx c s a pa b pb d pd)) = trafficRecords s"
    by auto
qed

theorem addTrafficRecord_sequential_id_witness:
  "input_ok fx_demo 11 [1] \<and> input_ok fx_demo 12 [1] \<and> input_ok fx_demo 13 [1]
   \<and> \<not> input_ok fx_demo 12 [2]
   \<and> unat (getTotalRecords shop) + 1 < 2 ^ 256
   \<and> (\<exists>s'. addTrafficRecord fx_demo (tx_of bob) shop 11 [1] 12 [1] 13 [1] =
              Inr (s', [TrafficRecordAdded (getTotalRecords shop) (msg_sender (tx_of bob))])
          \<and> getTotalRecords s' = getTotalRecords shop + 1
          \<and> unat (getTotalRecords s') = unat (getTotalRecords shop) + 1)
   \<and> (\<exists>e \<in> InvalidCiphertext.
         addTrafficRecord fx_demo (tx_of bob) shop 11 [1] 12 [2] 13 [1] = Inl e)
   \<and> after shop (addTrafficRecord fx_demo (tx_of bob) shop 11 [1] 12 [2] 13 [1]) = shop"
proof -
  note T = addTrafficRecord_sequential_id [of fx_demo "tx_of bob" shop 11 "[1]" 12 _ 13 "[1]"]
  have ok: "input_ok fx_demo 11 [1]" "input_ok fx_demo 12 [1]" "input_ok fx_demo 13 [1]"
    and bad: "\<not> input_ok fx_demo 12 [2]"
    by (simp_all add: input_ok_def fx_demo_def isInitialized_def)
  have room: "unat (getTotalRecords shop) + 1 < 2 ^ 256"
    by (simp add: getTotalRecords_def shop_fields)
  from T [of "[1]", THEN conjunct2, THEN conjunct1, rule_format, OF ok room]
  obtain s' where s': "addTrafficRecord fx_demo (tx_of bob) shop 11 [1] 12 [1] 13 [1] =
              Inr (s', [TrafficRecordAdded (getTotalRecords shop) (msg_sender (tx_of bob))])"
    by blast
  have 1: "getTotalRecords s' = getTotalRecords shop + 1
          \<and> unat (getTotalRecords s') = unat (getTotalRecords shop) + 1"
    using T [of "[1]", THEN conjunct1, rule_format, OF s'] by blast
  have 2: "(\<exists>e \<in> InvalidCiphertext.
         addTrafficRecord fx_demo (tx_of bob) shop 11 [1] 12 [2] 13 [1] = Inl e)
      \<and> after shop (addTrafficRecord fx_demo (tx_of bob) shop 11 [1] 12 [2] 13 [1]) = shop"
    using T [of "[2]", THEN conjunct2, THEN conjunct2] bad by blast
  from ok bad room s' 1 2 show ?thesis by blast
qed

section \<open>Properties of the decryption flow\<close>

subsection \<open>A target that is already proven\<close>

lemma or_zero_Num [simp]: "or_zero (Num n) = Num n"
  by simp

lemma try_block_verified:
  assumes "getBusinessData e L businessId = Resolved bd" and "isVerified bd"
  shows "try_block e L businessId =
    (case getContractReadOnly e of
       Rejected m \<Rightarrow> (L, [Call_getContractReadOnly], Rejected m)
     | Resolved contractRead \<Rightarrow>
         if \<not> contractRead then (L, [Call_getContractReadOnly], Resolved None)
         else (L, [Call_getContractReadOnly, Call_getBusinessData businessId,
                   SetTransactionStatus True Success ''Data already verified'',
                   SetTimeout_hide 2000],
               Resolved (Some (Num (unat (decryptedValue bd))))))"
  using assms by (simp add: try_block_def split: promise.splits)

lemma catch_block_quiet:
  "\<forall>x \<in> set (fst (catch_block m)). \<not> enters_handshake x"
  "Call_getContractWithSigner \<notin> set (fst (catch_block m))"
  by (simp_all add: catch_block_def enters_handshake_def)

text \<open>
  Claim C6. When the target read back from the ledger is already verified,
  \<open>decryptData\<close> leaves the ledger exactly as it found it (escrow balances and sold
  flags are part of the ledger), asks for no signer and never calls
  \<open>verifyDecryption\<close>: its outcome is the same whatever the hook and the contract's
  \<open>verifyDecryption\<close> would have done, and asking again gives the same outcome again.
  It returns the stored value or, when the wallet or the contract is missing, \<open>null\<close>;
  with a connected wallet and a contract it returns the stored value and reports
  \<open>Data already verified\<close>.
\<close>

theorem decryptData_already_verified:
  "getBusinessData e L businessId = Resolved bd \<longrightarrow> isVerified bd \<longrightarrow>
     ledger (decryptData e L businessId) = L
     \<and> (\<forall>x \<in> set (effects (decryptData e L businessId)). \<not> enters_handshake x)
     \<and> Call_getContractWithSigner \<notin> set (effects (decryptData e L businessId))
     \<and> decryptData (e\<lparr>hook_verifyDecryption := h', contract_verifyDecryption := k'\<rparr>) L businessId
         = decryptData e L businessId
     \<and> decryptData e (ledger (decryptData e L businessId)) businessId = decryptData e L businessId
     \<and> (returned (decryptData e L businessId) = Some (Num (unat (decryptedValue bd)))
          \<or> returned (decryptData e L businessId) = None)
     \<and> (isConnected e \<longrightarrow> account e \<noteq> None \<longrightarrow> getContractReadOnly e = Resolved True \<longrightarrow>
          decryptData e L businessId =
            \<lparr>returned = Some (Num (unat (decryptedValue bd))),
             effects = [SetIsDecrypting True, Call_getContractReadOnly,
                        Call_getBusinessData businessId,
                        SetTransactionStatus True Success ''Data already verified'',
                        SetTimeout_hide 2000, SetIsDecrypting False],
             ledger = L\<rparr>)"
  (is "_ \<longrightarrow> _ \<longrightarrow> ?same \<and> ?quiet \<and> ?nosigner \<and> ?indep \<and> ?again \<and> ?ret \<and> ?full")
proof (intro impI)
  assume bd: "getBusinessData e L businessId = Resolved bd" and v: "isVerified bd"
  note tb = try_block_verified [OF bd v]
  have same: ?same
    by (simp add: decryptData_def tb split: promise.splits)
  have ?quiet
    using catch_block_quiet(1)
    by (simp add: decryptData_def tb enters_handshake_def split: promise.splits)
  moreover have ?nosigner
    using catch_block_quiet(2)
    by (simp add: decryptData_def tb split: promise.splits)
  moreover have ?indep
  proof -
    have "getBusinessData (e\<lparr>hook_verifyDecryption := h', contract_verifyDecryption := k'\<rparr>)
            L businessId = Resolved bd"
      using bd by simp
    from try_block_verified [OF this v] show ?thesis
      by (simp add: decryptData_def tb)
  qed
  moreover have ?again
    by (simp only: same)
  moreover have ?ret
    by (simp add: decryptData_def tb catch_block_def split: promise.splits)
  moreover have ?full
    by (simp add: decryptData_def tb)
  ultimately show "?same \<and> ?quiet \<and> ?nosigner \<and> ?indep \<and> ?again \<and> ?ret \<and> ?full"
    using same by blast
qed

theorem decryptData_already_verified_witness:
  "getBusinessData (ledger_env demo_verifier svc_forging bob ''0xmarket'') proven_targets ''3''
     = Resolved \<lparr>isVerified = True, decryptedValue = 42\<rparr>
   \<and> decryptData (ledger_env demo_verifier svc_forging bob ''0xmarket'') proven_targets ''3'' =
       \<lparr>returned = Some (Num 42),
        effects = [SetIsDecrypting True, Call_getContractReadOnly, Call_getBusinessData ''3'',
                   SetTransactionStatus True Success ''Data already verified'',
                   SetTimeout_hide 2000, SetIsDecrypting False],
        ledger = proven_targets\<rparr>
   \<and> returned (decryptData wiping_env shop_sold ''3'') = Some (Num 42)
   \<and> withdrawals (ledger (decryptData wiping_env shop_sold ''3'')) = withdrawals shop_sold
   \<and> aggregatedData (ledger (decryptData wiping_env shop_sold ''3'')) = aggregatedData shop_sold"
proof -
  let ?e = "ledger_env demo_verifier svc_forging bob ''0xmarket''"
  let ?bd = "\<lparr>isVerified = True, decryptedValue = 42\<rparr>"
  have bd: "getBusinessData ?e proven_targets ''3'' = Resolved ?bd"
    by (simp add: ledger_env_def ledger_getBusinessData_def proven_targets_def)
  have v: "isVerified ?bd" by simp
  have env: "isConnected ?e" "account ?e \<noteq> None" "getContractReadOnly ?e = Resolved True"
    by (simp_all add: ledger_env_def)
  from decryptData_already_verified [of ?e proven_targets "''3''" ?bd, rule_format, OF bd v]
  have "decryptData ?e proven_targets ''3'' =
            \<lparr>returned = Some (Num (unat (decryptedValue ?bd))),
             effects = [SetIsDecrypting True, Call_getContractReadOnly,
                        Call_getBusinessData ''3'',
                        SetTransactionStatus True Success ''Data already verified'',
                        SetTimeout_hide 2000, SetIsDecrypting False],
             ledger = proven_targets\<rparr>"
    using env by blast
  then have 1: "decryptData ?e proven_targets ''3'' =
       \<lparr>returned = Some (Num 42),
        effects = [SetIsDecrypting True, Call_getContractReadOnly, Call_getBusinessData ''3'',
                   SetTransactionStatus True Success ''Data already verified'',
                   SetTimeout_hide 2000, SetIsDecrypting False],
        ledger = proven_targets\<rparr>"
    by simp
  have bd': "getBusinessData wiping_env shop_sold ''3'' = Resolved ?bd"
    by (simp add: wiping_env_def)
  have env': "isConnected wiping_env" "account wiping_env \<noteq> None"
    "getContractReadOnly wiping_env = Resolved True"
    by (simp_all add: wiping_env_def)
  note W = decryptData_already_verified [of wiping_env shop_sold "''3''" ?bd, rule_format, OF bd' v]
  have same: "ledger (decryptData wiping_env shop_sold ''3'') = shop_sold"
    using W by blast
  have "decryptData wiping_env shop_sold ''3'' =
            \<lparr>returned = Some (Num (unat (decryptedValue ?bd))),
             effects = [SetIsDecrypting True, Call_getContractReadOnly,
                        Call_getBusinessData ''3'',
                        SetTransactionStatus True Success ''Data already verified'',
                        SetTimeout_hide 2000, SetIsDecrypting False],
             ledger = shop_sold\<rparr>"
    using W env' by blast
  then have 2: "returned (decryptData wiping_env shop_sold ''3'') = Some (Num 42)"
    by simp
  from bd 1 2 same show ?thesis
    by simp
qed

subsection \<open>A proof that fails verification\<close>

lemma commitDecryption_rejects:
  assumes "L targetId = Some t" and "provenPlaintext t = None"
    and "\<not> verifyProof V [encryptedValue t] payload pf"
  shows "commitDecryption V L targetId payload pf = Inl ProofInvalid"
  using assms by (simp add: commitDecryption_def)

lemma commitDecryption_accepts:
  assumes "L targetId = Some t" and "provenPlaintext t = None"
    and "verifyProof V [encryptedValue t] payload pf"
  shows "commitDecryption V L targetId payload pf =
           Inr (L(targetId \<mapsto> t\<lparr>provenPlaintext := Some (decodeClearValue V payload)\<rparr>))"
  using assms by (simp add: commitDecryption_def)

lemma not_already_verified:
  "\<not> message_includes (Some (revert_message ProofInvalid)) ''Data already verified''"
  by (simp add: message_includes_def)

lemma try_block_unproven:
  assumes "L targetId = Some t" and "provenPlaintext t = None"
  shows "try_block (ledger_env V svc user ctx) L targetId =
    (case handshake svc [encryptedValue t] ctx (ledger_verifyDecryption V targetId) L of
       (L', Rejected m) \<Rightarrow>
          (L', [Call_getContractReadOnly, Call_getBusinessData targetId,
                Call_getContractWithSigner, Call_getEncryptedValue targetId,
                Call_verifyDecryption [encryptedValue t] ctx], Rejected m)
     | (L', Resolved result) \<Rightarrow>
          (L', [Call_getContractReadOnly, Call_getBusinessData targetId,
                Call_getContractWithSigner, Call_getEncryptedValue targetId,
                Call_verifyDecryption [encryptedValue t] ctx,
                SetTransactionStatus True Pending ''Verifying decryption...'',
                Call_loadData,
                SetTransactionStatus True Success ''Data decrypted successfully!'',
                SetTimeout_hide 2000],
           Resolved (Some (Number (clearValues result (encryptedValue t))))))"
  using assms
  by (simp add: try_block_def ledger_env_def ledger_getBusinessData_def
      ledger_getEncryptedValue_def)

text \<open>
  Claim C7, against the ledger entry point modelled from the design document. A target
  exists and has no proven plaintext; one payload and proof fail the verification check
  for its stored ciphertext, another pair passes. The commit phase with the failing pair
  ends in \<open>Failed ProofInvalid\<close> and leaves the ledger as it was, so \<open>provenPlaintext\<close>
  is still unset; the commit phase with the passing pair, run on the ledger the failed
  attempt left, ends in \<open>Committed\<close> with \<open>provenPlaintext\<close> set. Seen from the front
  end: \<open>decryptData\<close> with a decryption service that hands back the failing pair
  returns \<open>null\<close>, reports \<open>Decryption failed\<close> and leaves the ledger as it was;
  \<open>decryptData\<close> with a service that hands back the passing pair returns the clear
  value and leaves the plaintext committed.
\<close>

theorem rejected_proof_commits_nothing:
  "L targetId = Some t \<longrightarrow> provenPlaintext t = None \<longrightarrow>
   \<not> verifyProof V [encryptedValue t] badPayload badProof \<longrightarrow>
   verifyProof V [encryptedValue t] payload pf \<longrightarrow>
     commit_phase V targetId (ProofReceived badPayload badProof, L) = (Failed ProofInvalid, L)
     \<and> commit_phase V targetId
         (ProofReceived payload pf,
          snd (commit_phase V targetId (ProofReceived badPayload badProof, L)))
         = (Committed, L(targetId \<mapsto> t\<lparr>provenPlaintext := Some (decodeClearValue V payload)\<rparr>))
     \<and> (\<forall>forger res. forger [encryptedValue t] ctx = Resolved (res, badPayload, badProof) \<longrightarrow>
           decryptData (ledger_env V forger user ctx) L targetId =
             \<lparr>returned = None,
              effects = [SetIsDecrypting True, Call_getContractReadOnly,
                         Call_getBusinessData targetId, Call_getContractWithSigner,
                         Call_getEncryptedValue targetId,
                         Call_verifyDecryption [encryptedValue t] ctx,
                         SetTransactionStatus True Error ''Decryption failed'',
                         SetTimeout_hide 3000, SetIsDecrypting False],
              ledger = L\<rparr>)
     \<and> (\<forall>svc res. svc [encryptedValue t] ctx = Resolved (res, payload, pf) \<longrightarrow>
           decryptData (ledger_env V svc user ctx) L targetId =
             \<lparr>returned = Some (Number (clearValues res (encryptedValue t))),
              effects = [SetIsDecrypting True, Call_getContractReadOnly,
                         Call_getBusinessData targetId, Call_getContractWithSigner,
                         Call_getEncryptedValue targetId,
                         Call_verifyDecryption [encryptedValue t] ctx,
                         SetTransactionStatus True Pending ''Verifying decryption...'',
                         Call_loadData,
                         SetTransactionStatus True Success ''Data decrypted successfully!'',
                         SetTimeout_hide 2000, SetIsDecrypting False],
              ledger = L(targetId \<mapsto> t\<lparr>provenPlaintext := Some (decodeClearValue V payload)\<rparr>)\<rparr>)"
  (is "_ \<longrightarrow> _ \<longrightarrow> _ \<longrightarrow> _ \<longrightarrow> ?failed \<and> ?retry \<and> ?front_failed \<and> ?front_retry")
proof (intro impI)
  assume t: "L targetId = Some t" and unset: "provenPlaintext t = None"
    and bad: "\<not> verifyProof V [encryptedValue t] badPayload badProof"
    and good: "verifyProof V [encryptedValue t] payload pf"
  note rej = commitDecryption_rejects [of L targetId t V badPayload badProof, OF t unset bad]
  note acc = commitDecryption_accepts [of L targetId t V payload pf, OF t unset good]
  note tb = try_block_unproven [of L targetId t, OF t unset]
  have ?failed
    by (simp add: rej)
  moreover have ?retry
    by (simp add: rej acc)
  moreover have ?front_failed
  proof (intro allI impI)
    fix forger :: service and res :: DecryptionResult
    assume "forger [encryptedValue t] ctx = Resolved (res, badPayload, badProof)"
    then have "handshake forger [encryptedValue t] ctx (ledger_verifyDecryption V targetId) L
            = (L, Rejected (Some (revert_message ProofInvalid)))"
      by (simp add: handshake_def ledger_verifyDecryption_def rej)
    then have "try_block (ledger_env V forger user ctx) L targetId =
        (L, [Call_getContractReadOnly, Call_getBusinessData targetId,
             Call_getContractWithSigner, Call_getEncryptedValue targetId,
             Call_verifyDecryption [encryptedValue t] ctx],
         Rejected (Some (revert_message ProofInvalid)))"
      by (simp add: tb)
    moreover have "catch_block (Some (revert_message ProofInvalid)) =
        ([SetTransactionStatus True Error ''Decryption failed'', SetTimeout_hide 3000], None)"
      using not_already_verified by (simp add: catch_block_def)
    ultimately show "decryptData (ledger_env V forger user ctx) L targetId =
             \<lparr>returned = None,
              effects = [SetIsDecrypting True, Call_getContractReadOnly,
                         Call_getBusinessData targetId, Call_getContractWithSigner,
                         Call_getEncryptedValue targetId,
                         Call_verifyDecryption [encryptedValue t] ctx,
                         SetTransactionStatus True Error ''Decryption failed'',
                         SetTimeout_hide 3000, SetIsDecrypting False],
              ledger = L\<rparr>"
      by (simp add: decryptData_def ledger_env_def)
  qed
  moreover have ?front_retry
  proof (intro allI impI)
    fix svc :: service and res :: DecryptionResult
    assume "svc [encryptedValue t] ctx = Resolved (res, payload, pf)"
    then have "handshake svc [encryptedValue t] ctx (ledger_verifyDecryption V targetId) L
            = (L(targetId \<mapsto> t\<lparr>provenPlaintext := Some (decodeClearValue V payload)\<rparr>), Resolved res)"
      by (simp add: handshake_def ledger_verifyDecryption_def acc)
    then show "decryptData (ledger_env V svc user ctx) L targetId =
             \<lparr>returned = Some (Number (clearValues res (encryptedValue t))),
              effects = [SetIsDecrypting True, Call_getContractReadOnly,
                         Call_getBusinessData targetId, Call_getContractWithSigner,
                         Call_getEncryptedValue targetId,
                         Call_verifyDecryption [encryptedValue t] ctx,
                         SetTransactionStatus True Pending ''Verifying decryption...'',
                         Call_loadData,
                         SetTransactionStatus True Success ''Data decrypted successfully!'',
                         SetTimeout_hide 2000, SetIsDecrypting False],
              ledger = L(targetId \<mapsto> t\<lparr>provenPlaintext := Some (decodeClearValue V payload)\<rparr>)\<rparr>"
      by (simp add: decryptData_def tb) (simp add: ledger_env_def)
  qed
  ultimately show "?failed \<and> ?retry \<and> ?front_failed \<and> ?front_retry"
    by blast
qed

theorem rejected_proof_commits_nothing_witness:
  "demo_targets ''3'' = Some \<lparr>encryptedValue = 7, provenPlaintext = None\<rparr>
   \<and> \<not> verifyProof demo_verifier [7] ''41'' ''forged''
   \<and> verifyProof demo_verifier [7] ''42'' ''ok''
   \<and> commit_phase demo_verifier ''3'' (ProofReceived ''41'' ''forged'', demo_targets)
       = (Failed ProofInvalid, demo_targets)
   \<and> commit_phase demo_verifier ''3''
        (ProofReceived ''42'' ''ok'',
         snd (commit_phase demo_verifier ''3'' (ProofReceived ''41'' ''forged'', demo_targets)))
       = (Committed, proven_targets)
   \<and> returned (decryptData (ledger_env demo_verifier svc_forging bob ''0xmarket'') demo_targets ''3'')
       = None
   \<and> ledger (decryptData (ledger_env demo_verifier svc_forging bob ''0xmarket'') demo_targets ''3'')
       = demo_targets
   \<and> returned (decryptData (ledger_env demo_verifier svc_honest bob ''0xmarket'')
        (ledger (decryptData (ledger_env demo_verifier svc_forging bob ''0xmarket'') demo_targets ''3''))
        ''3'') = Some (Num 42)
   \<and> ledger (decryptData (ledger_env demo_verifier svc_honest bob ''0xmarket'')
        (ledger (decryptData (ledger_env demo_verifier svc_forging bob ''0xmarket'') demo_targets ''3''))
        ''3'') = proven_targets"
proof -
  let ?t = "\<lparr>encryptedValue = 7, provenPlaintext = None\<rparr>"
  have t: "demo_targets ''3'' = Some ?t"
    by (simp add: demo_targets_def)
  have unset: "provenPlaintext ?t = None" by simp
  have bad: "\<not> verifyProof demo_verifier [encryptedValue ?t] ''41'' ''forged''"
    and good: "verifyProof demo_verifier [encryptedValue ?t] ''42'' ''ok''"
    by (simp_all add: demo_verifier_def)
  have upd: "demo_targets(''3'' \<mapsto> ?t\<lparr>provenPlaintext := Some (decodeClearValue demo_verifier ''42'')\<rparr>)
      = proven_targets"
    by (simp add: proven_targets_def demo_verifier_def)
  note T = rejected_proof_commits_nothing [of demo_targets "''3''" ?t demo_verifier "''41''"
      "''forged''" "''42''" "''ok''" "''0xmarket''" bob, rule_format, OF t unset bad good]
  have 1: "commit_phase demo_verifier ''3'' (ProofReceived ''41'' ''forged'', demo_targets)
       = (Failed ProofInvalid, demo_targets)"
    using T [THEN conjunct1] .
  have 2: "commit_phase demo_verifier ''3''
        (ProofReceived ''42'' ''ok'',
         snd (commit_phase demo_verifier ''3'' (ProofReceived ''41'' ''forged'', demo_targets)))
       = (Committed, proven_targets)"
    using T [THEN conjunct2, THEN conjunct1] upd by simp
  have 3: "decryptData (ledger_env demo_verifier svc_forging bob ''0xmarket'') demo_targets ''3'' =
             \<lparr>returned = None,
              effects = [SetIsDecrypting True, Call_getContractReadOnly,
                         Call_getBusinessData ''3'', Call_getContractWithSigner,
                         Call_getEncryptedValue ''3'',
                         Call_verifyDecryption [encryptedValue ?t] ''0xmarket'',
                         SetTransactionStatus True Error ''Decryption failed'',
                         SetTimeout_hide 3000, SetIsDecrypting False],
              ledger = demo_targets\<rparr>"
    by (rule T [THEN conjunct2, THEN conjunct2, THEN conjunct1, rule_format])
      (simp add: svc_forging_def)
  have 4: "decryptData (ledger_env demo_verifier svc_honest bob ''0xmarket'') demo_targets ''3'' =
             \<lparr>returned = Some (Number (clearValues
                  \<lparr>clearValues = (\<lambda>h. if h = 7 then Some 42 else None)\<rparr> (encryptedValue ?t))),
              effects = [SetIsDecrypting True, Call_getContractReadOnly,
                         Call_getBusinessData ''3'', Call_getContractWithSigner,
                         Call_getEncryptedValue ''3'',
                         Call_verifyDecryption [encryptedValue ?t] ''0xmarket'',
                         SetTransactionStatus True Pending ''Verifying decryption...'',
                         Call_loadData,
                         SetTransactionStatus True Success ''Data decrypted successfully!'',
                         SetTimeout_hide 2000, SetIsDecrypting False],
              ledger = demo_targets(''3'' \<mapsto>
                 ?t\<lparr>provenPlaintext := Some (decodeClearValue demo_verifier ''42'')\<rparr>)\<rparr>"
    by (rule T [THEN conjunct2, THEN conjunct2, THEN conjunct2, rule_format])
      (simp add: svc_honest_def)
  have bad': "\<not> verifyProof demo_verifier [7] ''41'' ''forged''"
    and good': "verifyProof demo_verifier [7] ''42'' ''ok''"
    using bad good by simp_all
  have 5: "returned (decryptData (ledger_env demo_verifier svc_forging bob ''0xmarket'') demo_targets ''3'')
       = None"
    and 6: "ledger (decryptData (ledger_env demo_verifier svc_forging bob ''0xmarket'') demo_targets ''3'')
       = demo_targets"
    by (simp_all add: 3)
  have 7: "returned (decryptData (ledger_env demo_verifier svc_honest bob ''0xmarket'')
        (ledger (decryptData (ledger_env demo_verifier svc_forging bob ''0xmarket'') demo_targets ''3''))
        ''3'') = Some (Num 42)"
    by (simp add: 6 4)
  have 8: "ledger (decryptData (ledger_env demo_verifier svc_honest bob ''0xmarket'')
        (ledger (decryptData (ledger_env demo_verifier svc_forging bob ''0xmarket'') demo_targets ''3''))
        ''3'') = proven_targets"
  proof -
    have "ledger (decryptData (ledger_env demo_verifier svc_honest bob ''0xmarket'') demo_targets ''3'')
        = demo_targets(''3'' \<mapsto>
            ?t\<lparr>provenPlaintext := Some (decodeClearValue demo_verifier ''42'')\<rparr>)"
      by (simp only: 4 outcome.select_convs)
    then show ?thesis
      by (simp only: 6 upd)
  qed
  from t bad' good' 1 2 5 6 7 8 show ?thesis
    by blast
qed

end
